theory Spec2Isabelle
  imports Main "HOL-Library.Char_ord" "HOL-Library.List_Lexorder" "HOL-Library.Multiset"
begin

section \<open>Tool registry and dispatch router of the GoHighLevel MCP server\<close>

text \<open>
  The development embeds the two entry points \<^verbatim>\<open>src/server.ts\<close> (stdio transport) and
  \<^verbatim>\<open>src/http-server.ts\<close> (HTTP/SSE transport) together with
  \<^verbatim>\<open>src/handlers/describe.ts\<close> (class \<^verbatim>\<open>DescribeHandler\<close>).

  Strings are \<^typ>\<open>string\<close>. Tool names and schema field names of this code base are
  ASCII identifiers; \<^verbatim>\<open>toLowerCase\<close> and the default \<^verbatim>\<open>sort\<close> are modelled on
  that alphabet (code-unit order, upper-case Latin letters mapped to lower case).
\<close>

subsection \<open>Capability groups\<close>

text \<open>
  The nineteen tool class instances held as fields of \<^verbatim>\<open>GHLMCPServer\<close> and
  \<^verbatim>\<open>GHLMCPHttpServer\<close>, in the order of \<^verbatim>\<open>initializeTools\<close>.
\<close>

datatype grp =
    contactTools | conversationTools | blogTools | opportunityTools | calendarTools
  | emailTools | locationTools | emailISVTools | socialMediaTools | mediaTools
  | objectTools | associationTools | customFieldV2Tools | workflowTools | surveyTools
  | storeTools | productsTools | paymentsTools | invoicesTools

text \<open>
  An execute entry point: the field and the method called on it, for instance
  \<^verbatim>\<open>this.paymentsTools.handleToolCall\<close>.
\<close>

type_synonym entry = "grp \<times> string"

subsection \<open>Static membership lists of \<^verbatim>\<open>http-server.ts\<close>\<close>

definition contactToolNames :: "string list" where
  "contactToolNames =
    [''create_contact'', ''search_contacts'', ''get_contact'', ''update_contact'',
     ''add_contact_tags'', ''remove_contact_tags'', ''delete_contact'', ''get_contact_tasks'',
     ''create_contact_task'', ''get_contact_task'', ''update_contact_task'',
     ''delete_contact_task'', ''update_task_completion'', ''get_contact_notes'',
     ''create_contact_note'', ''get_contact_note'', ''update_contact_note'',
     ''delete_contact_note'', ''upsert_contact'', ''get_duplicate_contact'',
     ''get_contacts_by_business'', ''get_contact_appointments'', ''bulk_update_contact_tags'',
     ''bulk_update_contact_business'', ''add_contact_followers'', ''remove_contact_followers'',
     ''add_contact_to_campaign'', ''remove_contact_from_campaign'',
     ''remove_contact_from_all_campaigns'', ''add_contact_to_workflow'',
     ''remove_contact_from_workflow'']"

definition isContactTool :: "string \<Rightarrow> bool" where
  "isContactTool toolName = (toolName \<in> set contactToolNames)"

definition conversationToolNames :: "string list" where
  "conversationToolNames =
    [''send_sms'', ''send_email'', ''search_conversations'', ''get_conversation'',
     ''create_conversation'', ''update_conversation'', ''delete_conversation'',
     ''get_recent_messages'', ''get_email_message'', ''get_message'',
     ''upload_message_attachments'', ''update_message_status'', ''add_inbound_message'',
     ''add_outbound_call'', ''get_message_recording'', ''get_message_transcription'',
     ''download_transcription'', ''cancel_scheduled_message'', ''cancel_scheduled_email'',
     ''live_chat_typing'']"

definition isConversationTool :: "string \<Rightarrow> bool" where
  "isConversationTool toolName = (toolName \<in> set conversationToolNames)"

definition blogToolNames :: "string list" where
  "blogToolNames =
    [''create_blog_post'', ''update_blog_post'', ''get_blog_posts'', ''get_blog_sites'',
     ''get_blog_authors'', ''get_blog_categories'', ''check_url_slug'']"

definition isBlogTool :: "string \<Rightarrow> bool" where
  "isBlogTool toolName = (toolName \<in> set blogToolNames)"

definition opportunityToolNames :: "string list" where
  "opportunityToolNames =
    [''search_opportunities'', ''get_pipelines'', ''get_opportunity'', ''create_opportunity'',
     ''update_opportunity_status'', ''delete_opportunity'', ''update_opportunity'',
     ''upsert_opportunity'', ''add_opportunity_followers'', ''remove_opportunity_followers'']"

definition isOpportunityTool :: "string \<Rightarrow> bool" where
  "isOpportunityTool toolName = (toolName \<in> set opportunityToolNames)"

definition calendarToolNames :: "string list" where
  "calendarToolNames =
    [''get_calendar_groups'', ''get_calendars'', ''create_calendar'', ''get_calendar'',
     ''update_calendar'', ''delete_calendar'', ''get_calendar_events'', ''get_free_slots'',
     ''create_appointment'', ''get_appointment'', ''update_appointment'',
     ''delete_appointment'', ''create_block_slot'', ''update_block_slot'']"

definition isCalendarTool :: "string \<Rightarrow> bool" where
  "isCalendarTool toolName = (toolName \<in> set calendarToolNames)"

definition emailToolNames :: "string list" where
  "emailToolNames =
    [''get_email_campaigns'', ''create_email_template'', ''get_email_templates'',
     ''update_email_template'', ''delete_email_template'']"

definition isEmailTool :: "string \<Rightarrow> bool" where
  "isEmailTool toolName = (toolName \<in> set emailToolNames)"

definition locationToolNames :: "string list" where
  "locationToolNames =
    [''search_locations'', ''get_location'', ''create_location'', ''update_location'',
     ''delete_location'', ''get_location_tags'', ''create_location_tag'', ''get_location_tag'',
     ''update_location_tag'', ''delete_location_tag'', ''search_location_tasks'',
     ''get_location_custom_fields'', ''create_location_custom_field'',
     ''get_location_custom_field'', ''update_location_custom_field'',
     ''delete_location_custom_field'', ''get_location_custom_values'',
     ''create_location_custom_value'', ''get_location_custom_value'',
     ''update_location_custom_value'', ''delete_location_custom_value'',
     ''get_location_templates'', ''delete_location_template'', ''get_timezones'']"

definition isLocationTool :: "string \<Rightarrow> bool" where
  "isLocationTool toolName = (toolName \<in> set locationToolNames)"

definition isEmailISVTool :: "string \<Rightarrow> bool" where
  "isEmailISVTool toolName = (toolName = ''verify_email'')"

definition socialMediaToolNames :: "string list" where
  "socialMediaToolNames =
    [''search_social_posts'', ''create_social_post'', ''get_social_post'',
     ''update_social_post'', ''delete_social_post'', ''bulk_delete_social_posts'',
     ''get_social_accounts'', ''delete_social_account'', ''upload_social_csv'',
     ''get_csv_upload_status'', ''set_csv_accounts'', ''get_social_categories'',
     ''get_social_category'', ''get_social_tags'', ''get_social_tags_by_ids'',
     ''start_social_oauth'', ''get_platform_accounts'']"

definition isSocialMediaTool :: "string \<Rightarrow> bool" where
  "isSocialMediaTool toolName = (toolName \<in> set socialMediaToolNames)"

definition mediaToolNames :: "string list" where
  "mediaToolNames =
    [''get_media_files'', ''upload_media_file'', ''delete_media_file'']"

definition isMediaTool :: "string \<Rightarrow> bool" where
  "isMediaTool toolName = (toolName \<in> set mediaToolNames)"

definition objectToolNames :: "string list" where
  "objectToolNames =
    [''get_all_objects'', ''create_object_schema'', ''get_object_schema'',
     ''update_object_schema'', ''create_object_record'', ''get_object_record'',
     ''update_object_record'', ''delete_object_record'', ''search_object_records'']"

definition isObjectTool :: "string \<Rightarrow> bool" where
  "isObjectTool toolName = (toolName \<in> set objectToolNames)"

definition associationToolNames :: "string list" where
  "associationToolNames =
    [''ghl_get_all_associations'', ''ghl_create_association'', ''ghl_get_association_by_id'',
     ''ghl_update_association'', ''ghl_delete_association'', ''ghl_get_association_by_key'',
     ''ghl_get_association_by_object_key'', ''ghl_create_relation'',
     ''ghl_get_relations_by_record'', ''ghl_delete_relation'']"

definition isAssociationTool :: "string \<Rightarrow> bool" where
  "isAssociationTool toolName = (toolName \<in> set associationToolNames)"

definition customFieldV2ToolNames :: "string list" where
  "customFieldV2ToolNames =
    [''ghl_get_custom_field_by_id'', ''ghl_create_custom_field'', ''ghl_update_custom_field'',
     ''ghl_delete_custom_field'', ''ghl_get_custom_fields_by_object_key'',
     ''ghl_create_custom_field_folder'', ''ghl_update_custom_field_folder'',
     ''ghl_delete_custom_field_folder'']"

definition isCustomFieldV2Tool :: "string \<Rightarrow> bool" where
  "isCustomFieldV2Tool toolName = (toolName \<in> set customFieldV2ToolNames)"

definition isWorkflowTool :: "string \<Rightarrow> bool" where
  "isWorkflowTool toolName = (toolName = ''ghl_get_workflows'')"

definition surveyToolNames :: "string list" where
  "surveyToolNames =
    [''ghl_get_surveys'', ''ghl_get_survey_submissions'']"

definition isSurveyTool :: "string \<Rightarrow> bool" where
  "isSurveyTool toolName = (toolName \<in> set surveyToolNames)"

definition storeToolNames :: "string list" where
  "storeToolNames =
    [''ghl_create_shipping_zone'', ''ghl_list_shipping_zones'', ''ghl_get_shipping_zone'',
     ''ghl_update_shipping_zone'', ''ghl_delete_shipping_zone'',
     ''ghl_get_available_shipping_rates'', ''ghl_create_shipping_rate'',
     ''ghl_list_shipping_rates'', ''ghl_get_shipping_rate'', ''ghl_update_shipping_rate'',
     ''ghl_delete_shipping_rate'', ''ghl_create_shipping_carrier'',
     ''ghl_list_shipping_carriers'', ''ghl_get_shipping_carrier'',
     ''ghl_update_shipping_carrier'', ''ghl_delete_shipping_carrier'',
     ''ghl_create_store_setting'', ''ghl_get_store_setting'']"

definition isStoreTool :: "string \<Rightarrow> bool" where
  "isStoreTool toolName = (toolName \<in> set storeToolNames)"

definition productsToolNames :: "string list" where
  "productsToolNames =
    [''ghl_create_product'', ''ghl_list_products'', ''ghl_get_product'', ''ghl_update_product'',
     ''ghl_delete_product'', ''ghl_create_price'', ''ghl_list_prices'', ''ghl_list_inventory'',
     ''ghl_create_product_collection'', ''ghl_list_product_collections'']"

definition isProductsTool :: "string \<Rightarrow> bool" where
  "isProductsTool toolName = (toolName \<in> set productsToolNames)"

definition paymentsToolNames :: "string list" where
  "paymentsToolNames =
    [''create_whitelabel_integration_provider'', ''list_whitelabel_integration_providers'',
     ''list_orders'', ''get_order_by_id'', ''create_order_fulfillment'',
     ''list_order_fulfillments'', ''list_transactions'', ''get_transaction_by_id'',
     ''list_subscriptions'', ''get_subscription_by_id'', ''list_coupons'', ''create_coupon'',
     ''update_coupon'', ''delete_coupon'', ''get_coupon'',
     ''create_custom_provider_integration'', ''delete_custom_provider_integration'',
     ''get_custom_provider_config'', ''create_custom_provider_config'',
     ''disconnect_custom_provider_config'']"

definition isPaymentsTool :: "string \<Rightarrow> bool" where
  "isPaymentsTool toolName = (toolName \<in> set paymentsToolNames)"

definition invoicesToolNames :: "string list" where
  "invoicesToolNames =
    [''create_invoice_template'', ''list_invoice_templates'', ''get_invoice_template'',
     ''update_invoice_template'', ''delete_invoice_template'',
     ''update_invoice_template_late_fees'', ''update_invoice_template_payment_methods'',
     ''create_invoice_schedule'', ''list_invoice_schedules'', ''get_invoice_schedule'',
     ''update_invoice_schedule'', ''delete_invoice_schedule'', ''schedule_invoice_schedule'',
     ''auto_payment_invoice_schedule'', ''cancel_invoice_schedule'', ''create_invoice'',
     ''list_invoices'', ''get_invoice'', ''update_invoice'', ''delete_invoice'',
     ''void_invoice'', ''send_invoice'', ''record_invoice_payment'',
     ''generate_invoice_number'', ''text2pay_invoice'', ''update_invoice_last_visited'',
     ''create_estimate'', ''list_estimates'', ''update_estimate'', ''delete_estimate'',
     ''send_estimate'', ''create_invoice_from_estimate'', ''generate_estimate_number'',
     ''update_estimate_last_visited'', ''list_estimate_templates'',
     ''create_estimate_template'', ''update_estimate_template'', ''delete_estimate_template'',
     ''preview_estimate_template'']"

definition isInvoicesTool :: "string \<Rightarrow> bool" where
  "isInvoicesTool toolName = (toolName \<in> set invoicesToolNames)"

subsection \<open>Static membership tests of \<^verbatim>\<open>server.ts\<close>\<close>

definition stdio_isContactTool :: "string \<Rightarrow> bool" where
  "stdio_isContactTool name = (name \<in> set
    [''create_contact'', ''search_contacts'', ''get_contact'', ''update_contact'',
     ''add_contact_tags'', ''remove_contact_tags'', ''delete_contact'', ''get_contact_tasks'',
     ''create_contact_task'', ''get_contact_task'', ''update_contact_task'',
     ''delete_contact_task'', ''update_task_completion'', ''get_contact_notes'',
     ''create_contact_note'', ''get_contact_note'', ''update_contact_note'',
     ''delete_contact_note'', ''upsert_contact'', ''get_duplicate_contact'',
     ''get_contacts_by_business'', ''get_contact_appointments'', ''bulk_update_contact_tags'',
     ''bulk_update_contact_business'', ''add_contact_followers'', ''remove_contact_followers'',
     ''add_contact_to_campaign'', ''remove_contact_from_campaign'',
     ''remove_contact_from_all_campaigns'', ''add_contact_to_workflow'',
     ''remove_contact_from_workflow''])"

definition stdio_isConversationTool :: "string \<Rightarrow> bool" where
  "stdio_isConversationTool name = (name \<in> set
    [''send_sms'', ''send_email'', ''search_conversations'', ''get_conversation'',
     ''create_conversation'', ''update_conversation'', ''delete_conversation'',
     ''get_recent_messages'', ''get_email_message'', ''get_message'',
     ''upload_message_attachments'', ''update_message_status'', ''add_inbound_message'',
     ''add_outbound_call'', ''get_message_recording'', ''get_message_transcription'',
     ''download_transcription'', ''cancel_scheduled_message'', ''cancel_scheduled_email'',
     ''live_chat_typing''])"

definition stdio_isBlogTool :: "string \<Rightarrow> bool" where
  "stdio_isBlogTool name = (name \<in> set
    [''create_blog_post'', ''update_blog_post'', ''get_blog_posts'', ''get_blog_sites'',
     ''get_blog_authors'', ''get_blog_categories'', ''check_url_slug''])"

definition stdio_isOpportunityTool :: "string \<Rightarrow> bool" where
  "stdio_isOpportunityTool name = (name \<in> set
    [''search_opportunities'', ''get_pipelines'', ''get_opportunity'', ''create_opportunity'',
     ''update_opportunity_status'', ''delete_opportunity'', ''update_opportunity'',
     ''upsert_opportunity'', ''add_opportunity_followers'', ''remove_opportunity_followers''])"

definition stdio_isCalendarTool :: "string \<Rightarrow> bool" where
  "stdio_isCalendarTool name = (name \<in> set
    [''get_calendar_groups'', ''get_calendars'', ''create_calendar'', ''get_calendar'',
     ''update_calendar'', ''delete_calendar'', ''get_calendar_events'', ''get_free_slots'',
     ''create_appointment'', ''get_appointment'', ''update_appointment'',
     ''delete_appointment'', ''create_block_slot'', ''update_block_slot''])"

definition stdio_isEmailTool :: "string \<Rightarrow> bool" where
  "stdio_isEmailTool name = (name \<in> set
    [''get_email_campaigns'', ''create_email_template'', ''get_email_templates'',
     ''update_email_template'', ''delete_email_template''])"

definition stdio_isLocationTool :: "string \<Rightarrow> bool" where
  "stdio_isLocationTool name = (name \<in> set
    [''search_locations'', ''get_location'', ''create_location'', ''update_location'',
     ''delete_location'', ''get_location_tags'', ''create_location_tag'', ''get_location_tag'',
     ''update_location_tag'', ''delete_location_tag'', ''search_location_tasks'',
     ''get_location_custom_fields'', ''create_location_custom_field'',
     ''get_location_custom_field'', ''update_location_custom_field'',
     ''delete_location_custom_field'', ''get_location_custom_values'',
     ''create_location_custom_value'', ''get_location_custom_value'',
     ''update_location_custom_value'', ''delete_location_custom_value'',
     ''get_location_templates'', ''delete_location_template'', ''get_timezones''])"

definition stdio_isEmailISVTool :: "string \<Rightarrow> bool" where
  "stdio_isEmailISVTool name = (name = ''verify_email'')"

definition stdio_isSocialMediaTool :: "string \<Rightarrow> bool" where
  "stdio_isSocialMediaTool name = (name \<in> set
    [''search_social_posts'', ''create_social_post'', ''get_social_post'',
     ''update_social_post'', ''delete_social_post'', ''bulk_delete_social_posts'',
     ''get_social_accounts'', ''delete_social_account'', ''upload_social_csv'',
     ''get_csv_upload_status'', ''set_csv_accounts'', ''get_social_categories'',
     ''get_social_category'', ''get_social_tags'', ''get_social_tags_by_ids'',
     ''start_social_oauth'', ''get_platform_accounts''])"

definition stdio_isMediaTool :: "string \<Rightarrow> bool" where
  "stdio_isMediaTool name = (name \<in> set
    [''get_media_files'', ''upload_media_file'', ''delete_media_file''])"

definition stdio_isObjectTool :: "string \<Rightarrow> bool" where
  "stdio_isObjectTool name = (name \<in> set
    [''get_all_objects'', ''create_object_schema'', ''get_object_schema'',
     ''update_object_schema'', ''create_object_record'', ''get_object_record'',
     ''update_object_record'', ''delete_object_record'', ''search_object_records''])"

definition stdio_isAssociationTool :: "string \<Rightarrow> bool" where
  "stdio_isAssociationTool name = (name \<in> set
    [''ghl_get_all_associations'', ''ghl_create_association'', ''ghl_get_association_by_id'',
     ''ghl_update_association'', ''ghl_delete_association'', ''ghl_get_association_by_key'',
     ''ghl_get_association_by_object_key'', ''ghl_create_relation'',
     ''ghl_get_relations_by_record'', ''ghl_delete_relation''])"

definition stdio_isCustomFieldV2Tool :: "string \<Rightarrow> bool" where
  "stdio_isCustomFieldV2Tool name = (name \<in> set
    [''ghl_get_custom_field_by_id'', ''ghl_create_custom_field'', ''ghl_update_custom_field'',
     ''ghl_delete_custom_field'', ''ghl_get_custom_fields_by_object_key'',
     ''ghl_create_custom_field_folder'', ''ghl_update_custom_field_folder'',
     ''ghl_delete_custom_field_folder''])"

definition stdio_isWorkflowTool :: "string \<Rightarrow> bool" where
  "stdio_isWorkflowTool name = (name = ''ghl_get_workflows'')"

definition stdio_isSurveyTool :: "string \<Rightarrow> bool" where
  "stdio_isSurveyTool name = (name \<in> set
    [''ghl_get_surveys'', ''ghl_get_survey_submissions''])"

definition stdio_isStoreTool :: "string \<Rightarrow> bool" where
  "stdio_isStoreTool name = (name \<in> set
    [''ghl_create_shipping_zone'', ''ghl_list_shipping_zones'', ''ghl_get_shipping_zone'',
     ''ghl_update_shipping_zone'', ''ghl_delete_shipping_zone'',
     ''ghl_get_available_shipping_rates'', ''ghl_create_shipping_rate'',
     ''ghl_list_shipping_rates'', ''ghl_get_shipping_rate'', ''ghl_update_shipping_rate'',
     ''ghl_delete_shipping_rate'', ''ghl_create_shipping_carrier'',
     ''ghl_list_shipping_carriers'', ''ghl_get_shipping_carrier'',
     ''ghl_update_shipping_carrier'', ''ghl_delete_shipping_carrier'',
     ''ghl_create_store_setting'', ''ghl_get_store_setting''])"

definition stdio_isProductsTool :: "string \<Rightarrow> bool" where
  "stdio_isProductsTool name = (name \<in> set
    [''ghl_create_product'', ''ghl_list_products'', ''ghl_get_product'', ''ghl_update_product'',
     ''ghl_delete_product'', ''ghl_create_price'', ''ghl_list_prices'', ''ghl_list_inventory'',
     ''ghl_create_product_collection'', ''ghl_list_product_collections''])"

definition stdio_isPaymentsTool :: "string \<Rightarrow> bool" where
  "stdio_isPaymentsTool name = (name \<in> set
    [''create_whitelabel_integration_provider'', ''list_whitelabel_integration_providers'',
     ''list_orders'', ''get_order_by_id'', ''create_order_fulfillment'',
     ''list_order_fulfillments'', ''list_transactions'', ''get_transaction_by_id'',
     ''list_subscriptions'', ''get_subscription_by_id'', ''list_coupons'', ''create_coupon'',
     ''update_coupon'', ''delete_coupon'', ''get_coupon'',
     ''create_custom_provider_integration'', ''delete_custom_provider_integration'',
     ''get_custom_provider_config'', ''create_custom_provider_config'',
     ''disconnect_custom_provider_config''])"

definition stdio_isInvoicesTool :: "string \<Rightarrow> bool" where
  "stdio_isInvoicesTool name = (name \<in> set
    [''create_invoice_template'', ''list_invoice_templates'', ''get_invoice_template'',
     ''update_invoice_template'', ''delete_invoice_template'',
     ''update_invoice_template_late_fees'', ''update_invoice_template_payment_methods'',
     ''create_invoice_schedule'', ''list_invoice_schedules'', ''get_invoice_schedule'',
     ''update_invoice_schedule'', ''delete_invoice_schedule'', ''schedule_invoice_schedule'',
     ''auto_payment_invoice_schedule'', ''cancel_invoice_schedule'', ''create_invoice'',
     ''list_invoices'', ''get_invoice'', ''update_invoice'', ''delete_invoice'',
     ''void_invoice'', ''send_invoice'', ''record_invoice_payment'',
     ''generate_invoice_number'', ''text2pay_invoice'', ''update_invoice_last_visited'',
     ''create_estimate'', ''list_estimates'', ''update_estimate'', ''delete_estimate'',
     ''send_estimate'', ''create_invoice_from_estimate'', ''generate_estimate_number'',
     ''update_estimate_last_visited'', ''list_estimate_templates'',
     ''create_estimate_template'', ''update_estimate_template'', ''delete_estimate_template'',
     ''preview_estimate_template''])"

subsection \<open>The routing chains\<close>

text \<open>
  The \<^verbatim>\<open>if / else if\<close> chain of the \<^verbatim>\<open>CallToolRequestSchema\<close> handler picks the entry
  point; \<^const>\<open>None\<close> is the final \<^verbatim>\<open>else\<close> branch (unknown tool).
\<close>

definition http_route :: "string \<Rightarrow> entry option" where
  "http_route name =
    (if isContactTool name then Some (contactTools, ''executeTool'')
     else if isConversationTool name then Some (conversationTools, ''executeTool'')
     else if isBlogTool name then Some (blogTools, ''executeTool'')
     else if isOpportunityTool name then Some (opportunityTools, ''executeTool'')
     else if isCalendarTool name then Some (calendarTools, ''executeTool'')
     else if isEmailTool name then Some (emailTools, ''executeTool'')
     else if isLocationTool name then Some (locationTools, ''executeTool'')
     else if isEmailISVTool name then Some (emailISVTools, ''executeTool'')
     else if isSocialMediaTool name then Some (socialMediaTools, ''executeTool'')
     else if isMediaTool name then Some (mediaTools, ''executeTool'')
     else if isObjectTool name then Some (objectTools, ''executeTool'')
     else if isAssociationTool name then Some (associationTools, ''executeAssociationTool'')
     else if isCustomFieldV2Tool name
       then Some (customFieldV2Tools, ''executeCustomFieldV2Tool'')
     else if isWorkflowTool name then Some (workflowTools, ''executeWorkflowTool'')
     else if isSurveyTool name then Some (surveyTools, ''executeSurveyTool'')
     else if isStoreTool name then Some (storeTools, ''executeStoreTool'')
     else if isProductsTool name then Some (productsTools, ''executeProductsTool'')
     else if isPaymentsTool name then Some (paymentsTools, ''handleToolCall'')
     else if isInvoicesTool name then Some (invoicesTools, ''handleToolCall'')
     else None)"

definition stdio_route :: "string \<Rightarrow> entry option" where
  "stdio_route name =
    (if stdio_isContactTool name then Some (contactTools, ''executeTool'')
     else if stdio_isConversationTool name then Some (conversationTools, ''executeTool'')
     else if stdio_isBlogTool name then Some (blogTools, ''executeTool'')
     else if stdio_isOpportunityTool name then Some (opportunityTools, ''executeTool'')
     else if stdio_isCalendarTool name then Some (calendarTools, ''executeTool'')
     else if stdio_isEmailTool name then Some (emailTools, ''executeTool'')
     else if stdio_isLocationTool name then Some (locationTools, ''executeTool'')
     else if stdio_isEmailISVTool name then Some (emailISVTools, ''executeTool'')
     else if stdio_isSocialMediaTool name then Some (socialMediaTools, ''executeTool'')
     else if stdio_isMediaTool name then Some (mediaTools, ''executeTool'')
     else if stdio_isObjectTool name then Some (objectTools, ''executeTool'')
     else if stdio_isAssociationTool name
       then Some (associationTools, ''executeAssociationTool'')
     else if stdio_isCustomFieldV2Tool name
       then Some (customFieldV2Tools, ''executeCustomFieldV2Tool'')
     else if stdio_isWorkflowTool name then Some (workflowTools, ''executeWorkflowTool'')
     else if stdio_isSurveyTool name then Some (surveyTools, ''executeSurveyTool'')
     else if stdio_isStoreTool name then Some (storeTools, ''executeStoreTool'')
     else if stdio_isProductsTool name then Some (productsTools, ''executeProductsTool'')
     else if stdio_isPaymentsTool name then Some (paymentsTools, ''handleToolCall'')
     else if stdio_isInvoicesTool name then Some (invoicesTools, ''handleToolCall'')
     else None)"

subsection \<open>Strings\<close>

text \<open>\<^verbatim>\<open>String.prototype.includes\<close>: the argument occurs as a contiguous substring.\<close>

fun str_includes :: "string \<Rightarrow> string \<Rightarrow> bool" where
  "str_includes [] sub = (sub = [])"
| "str_includes (c # cs) sub = (take (length sub) (c # cs) = sub \<or> str_includes cs sub)"

text \<open>\<^verbatim>\<open>String.prototype.toLowerCase\<close> on ASCII text.\<close>

definition toLowerCase :: "string \<Rightarrow> string" where
  "toLowerCase s =
    map (\<lambda>c. case map_of (zip ''ABCDEFGHIJKLMNOPQRSTUVWXYZ'' ''abcdefghijklmnopqrstuvwxyz'') c of
               Some l \<Rightarrow> l
             | None \<Rightarrow> c) s"

subsection \<open>Failures and protocol errors\<close>

text \<open>
  A value thrown by a capability group. \<open>ErrorObject\<close> is an \<^verbatim>\<open>Error\<close> instance with a
  string \<^verbatim>\<open>name\<close> and a string \<^verbatim>\<open>message\<close>; \<open>NonError\<close> is a value that is not an
  \<^verbatim>\<open>Error\<close> instance and converts to the given string. \<open>OtherThrown\<close> is any other
  value, described by what the \<^verbatim>\<open>catch\<close> block observes of it: whether it is an instance
  of \<^verbatim>\<open>Error\<close>; what \<^verbatim>\<open>error.message.includes('404')\<close> yields, \<^const>\<open>None\<close> when that call
  throws (a message that is not a string and has no such method); and what converting the
  value to a string yields, \<^const>\<open>None\<close> when the conversion throws (a \<^verbatim>\<open>Symbol\<close>, an object
  without a prototype).
\<close>

datatype thrown =
    ErrorObject string string
  | NonError string
  | OtherThrown bool "bool option" "string option"

text \<open>
  The template literal \<^verbatim>\<open>${error}\<close>, for an \<^verbatim>\<open>Error\<close> by \<^verbatim>\<open>Error.prototype.toString\<close>;
  \<^const>\<open>None\<close> when the conversion throws.
\<close>

fun thrown_to_string :: "thrown \<Rightarrow> string option" where
  "thrown_to_string (ErrorObject nm msg) =
     Some (if nm = [] then msg else if msg = [] then nm else nm @ '': '' @ msg)"
| "thrown_to_string (NonError s) = Some s"
| "thrown_to_string (OtherThrown isError includes404 rendering) = rendering"

text \<open>The two \<^verbatim>\<open>ErrorCode\<close> members the handlers use, and \<^verbatim>\<open>new McpError(code, message)\<close>.\<close>

datatype ErrorCode = InvalidRequest | InternalError

text \<open>
  How a handler invocation can fail: with an \<^verbatim>\<open>McpError\<close> built by the handler, with the
  thrown value leaving the handler as it is, or with an error raised inside the \<^verbatim>\<open>catch\<close>
  block while it inspects the thrown value.
\<close>

datatype failure = McpError ErrorCode string | Uncaught thrown | ThrownInCatch

text \<open>
  The \<^verbatim>\<open>catch\<close> block of the HTTP handler. The test
  \<^verbatim>\<open>error instanceof Error && error.message.includes('404')\<close> comes first (\<^const>\<open>None\<close> when it
  throws), then the message is built.
\<close>

fun errorCode :: "thrown \<Rightarrow> ErrorCode option" where
  "errorCode (ErrorObject nm msg) =
     Some (if str_includes msg ''404'' then InvalidRequest else InternalError)"
| "errorCode (NonError s) = Some InternalError"
| "errorCode (OtherThrown isError includes404 rendering) =
     (if isError then
        (case includes404 of
           None \<Rightarrow> None
         | Some b \<Rightarrow> Some (if b then InvalidRequest else InternalError))
      else Some InternalError)"

definition http_catch :: "thrown \<Rightarrow> failure" where
  "http_catch error =
     (case errorCode error of
        None \<Rightarrow> ThrownInCatch
      | Some code \<Rightarrow>
          (case thrown_to_string error of
             None \<Rightarrow> ThrownInCatch
           | Some rendering \<Rightarrow> McpError code (''Tool execution failed: '' @ rendering)))"

subsection \<open>The invocation handlers\<close>

text \<open>
  The success envelope \<^verbatim>\<open>{ content: [{ type: 'text', text: ... }] }\<close>.
\<close>

record content_item =
  content_type :: string
  content_text :: string

record call_result =
  content :: "content_item list"

text \<open>
  Arguments are a mapping from keys to values; the request may carry none.
  \<^verbatim>\<open>args || {}\<close> replaces a missing mapping by the empty one.
\<close>

type_synonym 'v arguments = "string \<rightharpoonup> 'v"

definition args_or_empty :: "'v arguments option \<Rightarrow> 'v arguments" where
  "args_or_empty args = (case args of None \<Rightarrow> Map.empty | Some a \<Rightarrow> a)"

text \<open>
  A capability group's behaviour is a parameter: given the entry point, the tool name and
  the arguments it either throws or returns a payload. The serialiser is an argument of the
  handlers; the one the code calls, \<^verbatim>\<open>JSON.stringify(result, null, 2)\<close>, is
  \<open>JSON_stringify\<close> below. Each handler returns its outcome together with the log of the
  execute calls it made.
\<close>

type_synonym ('v, 'r) execute = "entry \<Rightarrow> string \<Rightarrow> 'v arguments \<Rightarrow> thrown + 'r"

type_synonym 'v call = "entry \<times> string \<times> 'v arguments"

definition envelope :: "('r \<Rightarrow> string) \<Rightarrow> 'r \<Rightarrow> call_result" where
  "envelope stringify result =
     \<lparr>content = [\<lparr>content_type = ''text'', content_text = stringify result\<rparr>]\<rparr>"

definition unknown_tool :: "string \<Rightarrow> thrown" where
  "unknown_tool name = ErrorObject ''Error'' (''Unknown tool: '' @ name)"

text \<open>\<^verbatim>\<open>http-server.ts\<close>: the body is wrapped in \<^verbatim>\<open>try / catch\<close>.\<close>

definition http_callTool ::
  "('v, 'r) execute \<Rightarrow> ('r \<Rightarrow> string) \<Rightarrow> string \<Rightarrow> 'v arguments option
     \<Rightarrow> (failure + call_result) \<times> 'v call list" where
  "http_callTool exec stringify name args =
     (case http_route name of
        Some e \<Rightarrow>
          (case exec e name (args_or_empty args) of
             Inr result \<Rightarrow> (Inr (envelope stringify result), [(e, name, args_or_empty args)])
           | Inl error \<Rightarrow> (Inl (http_catch error), [(e, name, args_or_empty args)]))
      | None \<Rightarrow> (Inl (http_catch (unknown_tool name)), []))"

text \<open>\<^verbatim>\<open>server.ts\<close>: no \<^verbatim>\<open>try / catch\<close>; a thrown value leaves the handler.\<close>

definition stdio_callTool ::
  "('v, 'r) execute \<Rightarrow> ('r \<Rightarrow> string) \<Rightarrow> string \<Rightarrow> 'v arguments option
     \<Rightarrow> (failure + call_result) \<times> 'v call list" where
  "stdio_callTool exec stringify name args =
     (case stdio_route name of
        Some e \<Rightarrow>
          (case exec e name (args_or_empty args) of
             Inr result \<Rightarrow> (Inr (envelope stringify result), [(e, name, args_or_empty args)])
           | Inl error \<Rightarrow> (Inl (Uncaught error), [(e, name, args_or_empty args)]))
      | None \<Rightarrow> (Inl (Uncaught (unknown_tool name)), []))"

subsection \<open>Ownership\<close>

text \<open>
  The membership test and the execute entry point the chains associate with each group.
\<close>

fun owns :: "grp \<Rightarrow> string \<Rightarrow> bool" where
  "owns contactTools n = isContactTool n"
| "owns conversationTools n = isConversationTool n"
| "owns blogTools n = isBlogTool n"
| "owns opportunityTools n = isOpportunityTool n"
| "owns calendarTools n = isCalendarTool n"
| "owns emailTools n = isEmailTool n"
| "owns locationTools n = isLocationTool n"
| "owns emailISVTools n = isEmailISVTool n"
| "owns socialMediaTools n = isSocialMediaTool n"
| "owns mediaTools n = isMediaTool n"
| "owns objectTools n = isObjectTool n"
| "owns associationTools n = isAssociationTool n"
| "owns customFieldV2Tools n = isCustomFieldV2Tool n"
| "owns workflowTools n = isWorkflowTool n"
| "owns surveyTools n = isSurveyTool n"
| "owns storeTools n = isStoreTool n"
| "owns productsTools n = isProductsTool n"
| "owns paymentsTools n = isPaymentsTool n"
| "owns invoicesTools n = isInvoicesTool n"

fun entry_point :: "grp \<Rightarrow> entry" where
  "entry_point associationTools = (associationTools, ''executeAssociationTool'')"
| "entry_point customFieldV2Tools = (customFieldV2Tools, ''executeCustomFieldV2Tool'')"
| "entry_point workflowTools = (workflowTools, ''executeWorkflowTool'')"
| "entry_point surveyTools = (surveyTools, ''executeSurveyTool'')"
| "entry_point storeTools = (storeTools, ''executeStoreTool'')"
| "entry_point productsTools = (productsTools, ''executeProductsTool'')"
| "entry_point paymentsTools = (paymentsTools, ''handleToolCall'')"
| "entry_point invoicesTools = (invoicesTools, ''handleToolCall'')"
| "entry_point g = (g, ''executeTool'')"

text \<open>Every name of a static list, each paired with the group whose list holds it.\<close>

definition routing_table :: "(string \<times> grp) list" where
  "routing_table =
     map (\<lambda>n. (n, contactTools)) contactToolNames
     @ map (\<lambda>n. (n, conversationTools)) conversationToolNames
     @ map (\<lambda>n. (n, blogTools)) blogToolNames
     @ map (\<lambda>n. (n, opportunityTools)) opportunityToolNames
     @ map (\<lambda>n. (n, calendarTools)) calendarToolNames
     @ map (\<lambda>n. (n, emailTools)) emailToolNames
     @ map (\<lambda>n. (n, locationTools)) locationToolNames
     @ [(''verify_email'', emailISVTools)]
     @ map (\<lambda>n. (n, socialMediaTools)) socialMediaToolNames
     @ map (\<lambda>n. (n, mediaTools)) mediaToolNames
     @ map (\<lambda>n. (n, objectTools)) objectToolNames
     @ map (\<lambda>n. (n, associationTools)) associationToolNames
     @ map (\<lambda>n. (n, customFieldV2Tools)) customFieldV2ToolNames
     @ [(''ghl_get_workflows'', workflowTools)]
     @ map (\<lambda>n. (n, surveyTools)) surveyToolNames
     @ map (\<lambda>n. (n, storeTools)) storeToolNames
     @ map (\<lambda>n. (n, productsTools)) productsToolNames
     @ map (\<lambda>n. (n, paymentsTools)) paymentsToolNames
     @ map (\<lambda>n. (n, invoicesTools)) invoicesToolNames"

subsection \<open>Tool definitions and the catalog\<close>

text \<open>
  The part of a JSON schema the code reads: \<^verbatim>\<open>properties\<close> (each property reduced to its
  \<^verbatim>\<open>type\<close>; a property without a string \<^verbatim>\<open>type\<close> is one whose type is none of the
  five the code knows) and \<^verbatim>\<open>required\<close>; either may be absent.
\<close>

record schema =
  properties :: "(string \<times> string) list option"
  required :: "string list option"

record ToolDefinition =
  name :: string
  description :: "string option"
  inputSchema :: schema

text \<open>
  The definitions each group publishes (\<^verbatim>\<open>getToolDefinitions\<close> / \<^verbatim>\<open>getTools\<close>) live in
  the tool classes, outside the files embedded here; they are a parameter
  \<open>defs\<close>. \<^verbatim>\<open>getAllTools\<close> spreads them into one array; it is written out in both
  entry points.
\<close>

definition getAllTools :: "(grp \<Rightarrow> ToolDefinition list) \<Rightarrow> ToolDefinition list" where
  "getAllTools defs =
     defs contactTools @ defs conversationTools @ defs blogTools @ defs opportunityTools
     @ defs calendarTools @ defs emailTools @ defs locationTools @ defs emailISVTools
     @ defs socialMediaTools @ defs mediaTools @ defs objectTools @ defs associationTools
     @ defs customFieldV2Tools @ defs workflowTools @ defs surveyTools @ defs storeTools
     @ defs productsTools @ defs paymentsTools @ defs invoicesTools"

definition stdio_getAllTools :: "(grp \<Rightarrow> ToolDefinition list) \<Rightarrow> ToolDefinition list" where
  "stdio_getAllTools defs =
     defs contactTools @ defs conversationTools @ defs blogTools @ defs opportunityTools
     @ defs calendarTools @ defs emailTools @ defs locationTools @ defs emailISVTools
     @ defs socialMediaTools @ defs mediaTools @ defs objectTools @ defs associationTools
     @ defs customFieldV2Tools @ defs workflowTools @ defs surveyTools @ defs storeTools
     @ defs productsTools @ defs paymentsTools @ defs invoicesTools"

text \<open>The groups in registration order.\<close>

definition groups :: "grp list" where
  "groups =
     [contactTools, conversationTools, blogTools, opportunityTools, calendarTools,
      emailTools, locationTools, emailISVTools, socialMediaTools, mediaTools, objectTools,
      associationTools, customFieldV2Tools, workflowTools, surveyTools, storeTools,
      productsTools, paymentsTools, invoicesTools]"

subsection \<open>The category classifier\<close>

text \<open>
  The \<^verbatim>\<open>if / else if\<close> chain inside \<^verbatim>\<open>categorizeTools\<close>, on the lower-cased name; it
  yields the key of the bucket the name is pushed to.
\<close>

definition bucket_of :: "string \<Rightarrow> string" where
  "bucket_of toolName =
    (if str_includes toolName ''contact'' then ''Contact Management''
     else if str_includes toolName ''message'' \<or> str_includes toolName ''sms''
          \<or> str_includes toolName ''email'' \<or> str_includes toolName ''conversation''
       then ''Messaging & Communication''
     else if str_includes toolName ''opportunity'' \<or> str_includes toolName ''pipeline''
       then ''Sales & Opportunities''
     else if str_includes toolName ''calendar'' \<or> str_includes toolName ''appointment''
          \<or> str_includes toolName ''event''
       then ''Calendar & Appointments''
     else if str_includes toolName ''payment'' \<or> str_includes toolName ''invoice''
          \<or> str_includes toolName ''billing'' \<or> str_includes toolName ''transaction''
       then ''Payments & Billing''
     else if str_includes toolName ''social'' \<or> str_includes toolName ''blog''
          \<or> str_includes toolName ''media'' \<or> str_includes toolName ''campaign''
       then ''Marketing & Social Media''
     else if str_includes toolName ''location'' \<or> str_includes toolName ''workflow''
          \<or> str_includes toolName ''survey'' \<or> str_includes toolName ''store''
       then ''Business Operations''
     else if str_includes toolName ''object'' \<or> str_includes toolName ''custom''
          \<or> str_includes toolName ''field'' \<or> str_includes toolName ''association''
       then ''Custom Objects & Data''
     else ''Other'')"

text \<open>
  The \<^verbatim>\<open>categories\<close> record keeps its keys in insertion order; \<^verbatim>\<open>push\<close> appends to the
  array stored under a key.
\<close>

type_synonym buckets = "(string \<times> string list) list"

definition empty_categories :: buckets where
  "empty_categories =
     [(''Contact Management'', []), (''Messaging & Communication'', []),
      (''Sales & Opportunities'', []), (''Calendar & Appointments'', []),
      (''Payments & Billing'', []), (''Marketing & Social Media'', []),
      (''Business Operations'', []), (''Custom Objects & Data'', []), (''Other'', [])]"

definition push :: "string \<Rightarrow> string \<Rightarrow> buckets \<Rightarrow> buckets" where
  "push key v categories =
     map (\<lambda>(k, vs). if k = key then (k, vs @ [v]) else (k, vs)) categories"

record Category =
  category_name :: string
  category_count :: nat
  category_tools :: "string list"

text \<open>
  \<^verbatim>\<open>categorizeTools\<close> of \<^verbatim>\<open>http-server.ts\<close>: fill the buckets with \<^verbatim>\<open>forEach\<close>, then keep
  the non-empty ones and sort each member list (\<^verbatim>\<open>Array.prototype.sort\<close> without a
  comparator orders strings by code units).
\<close>

definition categorizeTools :: "ToolDefinition list \<Rightarrow> Category list" where
  "categorizeTools tools =
     (let categories =
            fold (\<lambda>tool cats. push (bucket_of (toLowerCase (name tool))) (name tool) cats)
              tools empty_categories
      in map (\<lambda>(nm, ts). \<lparr>category_name = nm, category_count = length ts,
                             category_tools = sort ts\<rparr>)
           (filter (\<lambda>(nm, ts). length ts > 0) categories))"

text \<open>The private \<^verbatim>\<open>categorizeTools\<close> of \<^verbatim>\<open>DescribeHandler\<close>, a second copy.\<close>

definition DescribeHandler_categorizeTools :: "ToolDefinition list \<Rightarrow> Category list" where
  "DescribeHandler_categorizeTools tools =
     (let categories =
            fold (\<lambda>tool cats. push (bucket_of (toLowerCase (name tool))) (name tool) cats)
              tools empty_categories
      in map (\<lambda>(nm, ts). \<lparr>category_name = nm, category_count = length ts,
                             category_tools = sort ts\<rparr>)
           (filter (\<lambda>(nm, ts). length ts > 0) categories))"

text \<open>\<^verbatim>\<open>getToolCategory\<close> of \<^verbatim>\<open>http-server.ts\<close>, used by the describe-one route.\<close>

definition getToolCategory :: "string \<Rightarrow> string" where
  "getToolCategory toolName =
    (let nm = toLowerCase toolName in
     if str_includes nm ''contact'' then ''Contact Management''
     else if str_includes nm ''message'' \<or> str_includes nm ''sms''
          \<or> str_includes nm ''email'' \<or> str_includes nm ''conversation''
       then ''Messaging & Communication''
     else if str_includes nm ''opportunity'' \<or> str_includes nm ''pipeline''
       then ''Sales & Opportunities''
     else if str_includes nm ''calendar'' \<or> str_includes nm ''appointment''
       then ''Calendar & Appointments''
     else if str_includes nm ''payment'' \<or> str_includes nm ''invoice''
          \<or> str_includes nm ''billing''
       then ''Payments & Billing''
     else if str_includes nm ''social'' \<or> str_includes nm ''blog''
          \<or> str_includes nm ''media''
       then ''Marketing & Social Media''
     else if str_includes nm ''location'' \<or> str_includes nm ''workflow''
          \<or> str_includes nm ''survey'' \<or> str_includes nm ''store''
       then ''Business Operations''
     else if str_includes nm ''object'' \<or> str_includes nm ''custom''
          \<or> str_includes nm ''field'' \<or> str_includes nm ''association''
       then ''Custom Objects & Data''
     else ''Other'')"

text \<open>
  The table that the chain of \<^verbatim>\<open>getToolCategory\<close> tests: the classifier's order, without
  the cues \<open>event\<close>, \<open>transaction\<close> and \<open>campaign\<close>.
\<close>

definition route_priority_order :: "(string \<times> string list) list" where
  "route_priority_order =
     [(''Contact Management'', [''contact'']),
      (''Messaging & Communication'', [''message'', ''sms'', ''email'', ''conversation'']),
      (''Sales & Opportunities'', [''opportunity'', ''pipeline'']),
      (''Calendar & Appointments'', [''calendar'', ''appointment'']),
      (''Payments & Billing'', [''payment'', ''invoice'', ''billing'']),
      (''Marketing & Social Media'', [''social'', ''blog'', ''media'']),
      (''Business Operations'', [''location'', ''workflow'', ''survey'', ''store'']),
      (''Custom Objects & Data'', [''object'', ''custom'', ''field'', ''association''])]"

text \<open>
  The classifier as the specification words it: labels in a fixed priority order, each with
  its cue substrings; the first label one of whose cues occurs in the lower-cased name wins,
  and \<open>Other\<close> is left when none does.
\<close>

definition priority_order :: "(string \<times> string list) list" where
  "priority_order =
     [(''Contact Management'', [''contact'']),
      (''Messaging & Communication'', [''message'', ''sms'', ''email'', ''conversation'']),
      (''Sales & Opportunities'', [''opportunity'', ''pipeline'']),
      (''Calendar & Appointments'', [''calendar'', ''appointment'', ''event'']),
      (''Payments & Billing'', [''payment'', ''invoice'', ''billing'', ''transaction'']),
      (''Marketing & Social Media'', [''social'', ''blog'', ''media'', ''campaign'']),
      (''Business Operations'', [''location'', ''workflow'', ''survey'', ''store'']),
      (''Custom Objects & Data'', [''object'', ''custom'', ''field'', ''association''])]"

fun first_match :: "(string \<times> string list) list \<Rightarrow> string \<Rightarrow> string" where
  "first_match [] s = ''Other''"
| "first_match ((label, cues) # rest) s =
     (if list_ex (str_includes s) cues then label else first_match rest s)"

definition spec_classify :: "string \<Rightarrow> string" where
  "spec_classify toolName = first_match priority_order (toLowerCase toolName)"

subsection \<open>JSON values and their serialisation\<close>

text \<open>
  A JSON value; an object is the list of its own properties in property order. Numbers are
  the runtime's floating-point numbers: their type and the text the serialiser writes for
  them are parameters.
\<close>

datatype 'n json =
    JNull | JBool bool | JNum 'n | JStr string | JArr "'n json list"
  | JObj "(string \<times> 'n json) list"










subsection \<open>Describe one tool\<close>

record example =
  example_tool :: string
  example_arguments :: "string \<rightharpoonup> int json"

record tool_description =
  tool :: ToolDefinition
  examples :: "example list"
  relatedTools :: "string list"
  category :: string

text \<open>The message \<^verbatim>\<open>Tool '${toolName}' not found\<close>.\<close>

definition not_found_message :: "string \<Rightarrow> string" where
  "not_found_message toolName = ''Tool '' @ [CHR 0x27] @ toolName @ [CHR 0x27] @ '' not found''"

text \<open>
  The route \<^verbatim>\<open>GET /describe/tool/:toolName\<close> of \<^verbatim>\<open>http-server.ts\<close>; a failure is the
  status code with the \<^verbatim>\<open>error\<close> text of the body.
\<close>

definition describe_tool_route ::
  "(grp \<Rightarrow> ToolDefinition list) \<Rightarrow> string \<Rightarrow> (nat \<times> string) + tool_description" where
  "describe_tool_route defs toolName =
     (let allTools = getAllTools defs in
      case find (\<lambda>t. name t = toolName) allTools of
        None \<Rightarrow> Inl (404, not_found_message toolName)
      | Some t \<Rightarrow>
          Inr \<lparr>tool = t,
               examples = [\<lparr>example_tool = name t, example_arguments = Map.empty\<rparr>],
               relatedTools = [],
               category = getToolCategory toolName\<rparr>)"

text \<open>
  \<^verbatim>\<open>generateToolExamples\<close> of \<^verbatim>\<open>DescribeHandler\<close>: the \<^verbatim>\<open>switch\<close> on the property type,
  then the loop over the required fields. The arguments are a plain object, so an
  assignment to the key \<open>__proto__\<close> reaches the prototype setter and stores no property.
\<close>

definition example_literal :: "string \<Rightarrow> string \<Rightarrow> int json option" where
  "example_literal ty field =
     (if ty = ''string'' then
        Some (JStr (if str_includes field ''email'' then ''user@example.com''
                    else if str_includes field ''phone'' then ''+1234567890''
                    else if str_includes field ''id'' then ''example_id_123''
                    else ''example_value''))
      else if ty = ''number'' then
        Some (JNum (if str_includes field ''amount'' then 100 else 1))
      else if ty = ''boolean'' then Some (JBool True)
      else if ty = ''object'' then Some (JObj [])
      else if ty = ''array'' then Some (JArr [])
      else None)"

definition example_step ::
  "(string \<times> string) list \<Rightarrow> string \<Rightarrow> (string \<rightharpoonup> int json)
     \<Rightarrow> (string \<rightharpoonup> int json)" where
  "example_step props field exampleArgs =
     (case map_of props field of
        None \<Rightarrow> exampleArgs
      | Some ty \<Rightarrow>
          (case example_literal ty field of
             None \<Rightarrow> exampleArgs
           | Some v \<Rightarrow>
               if field = ''__proto__'' then exampleArgs else exampleArgs(field \<mapsto> v)))"

definition generateToolExamples :: "ToolDefinition \<Rightarrow> example list" where
  "generateToolExamples t =
     (case properties (inputSchema t) of
        None \<Rightarrow> []
      | Some props \<Rightarrow>
          (let requiredFields = (case required (inputSchema t) of None \<Rightarrow> [] | Some r \<Rightarrow> r)
           in [\<lparr>example_tool = name t,
                example_arguments = fold (example_step props) requiredFields Map.empty\<rparr>]))"

text \<open>
  \<^verbatim>\<open>findRelatedTools\<close>: the regular expression is an alternation of eleven words, so a
  match is the leftmost position where one of them starts, and there the first of them in
  the order written.
\<close>

definition entity_words :: "string list" where
  "entity_words =
     [''contact'', ''conversation'', ''opportunity'', ''appointment'', ''invoice'', ''payment'',
      ''social'', ''workflow'', ''object'', ''location'', ''blog'']"

fun entityMatch :: "string \<Rightarrow> string option" where
  "entityMatch [] = None"
| "entityMatch (c # cs) =
     (case find (\<lambda>w. take (length w) (c # cs) = w) entity_words of
        Some w \<Rightarrow> Some w
      | None \<Rightarrow> entityMatch cs)"

definition findRelatedTools :: "ToolDefinition \<Rightarrow> ToolDefinition list \<Rightarrow> string list" where
  "findRelatedTools currentTool allTools =
     (let currentName = toLowerCase (name currentTool);
          related =
            (case entityMatch currentName of
               None \<Rightarrow> []
             | Some entity \<Rightarrow>
                 map name
                   (filter (\<lambda>t. name t \<noteq> name currentTool
                                \<and> str_includes (toLowerCase (name t)) entity) allTools))
      in take 5 related)"

text \<open>
  \<^verbatim>\<open>getToolDescription\<close> of \<^verbatim>\<open>DescribeHandler\<close>, over the tools installed by
  \<^verbatim>\<open>setTools\<close>.
\<close>

definition getToolDescription ::
  "ToolDefinition list \<Rightarrow> string \<Rightarrow> thrown + tool_description" where
  "getToolDescription tools toolName =
     (case find (\<lambda>t. name t = toolName) tools of
        None \<Rightarrow> Inl (ErrorObject ''Error'' (not_found_message toolName))
      | Some t \<Rightarrow>
          (let categories = DescribeHandler_categorizeTools [t] in
           Inr \<lparr>tool = t,
                examples = generateToolExamples t,
                relatedTools = findRelatedTools t tools,
                category = (if length categories > 0 then category_name (hd categories)
                            else ''Other'')\<rparr>))"

subsection \<open>Notions used in the statements\<close>

text \<open>The keys of the \<^verbatim>\<open>categories\<close> record, in insertion order.\<close>

definition category_labels :: "string list" where
  "category_labels = map fst empty_categories"

text \<open>The names, in input order, that the chain files under a key.\<close>

definition members :: "ToolDefinition list \<Rightarrow> string \<Rightarrow> string list" where
  "members tools k =
     map name (filter (\<lambda>t. bucket_of (toLowerCase (name t)) = k) tools)"

text \<open>Projections of a describe-one answer.\<close>

definition described_tool :: "'e + tool_description \<Rightarrow> ToolDefinition option" where
  "described_tool r = (case r of Inl e \<Rightarrow> None | Inr d \<Rightarrow> Some (tool d))"

definition described_examples ::
  "'e + tool_description \<Rightarrow> string \<Rightarrow> (string \<times> int json option) list" where
  "described_examples r field =
     (case r of
        Inl e \<Rightarrow> []
      | Inr d \<Rightarrow> map (\<lambda>e. (example_tool e, example_arguments e field)) (examples d))"

subsection \<open>Sample collaborators\<close>

text \<open>
  Concrete capability-group behaviours, serialisers and published definitions on which
  the properties below are exercised.
\<close>

definition sample_text :: "int json \<Rightarrow> string" where
  "sample_text v = (case v of JStr s \<Rightarrow> s | _ \<Rightarrow> ''null'')"

definition returns_null :: "(int json, int json) execute" where
  "returns_null e n a = Inr JNull"

definition throws_not_found :: "(int json, int json) execute" where
  "throws_not_found e n a = Inl (ErrorObject ''Error'' ''Contact not found'')"

definition throws_404 :: "(int json, int json) execute" where
  "throws_404 e n a = Inl (ErrorObject ''Error'' ''Request failed with status code 404'')"

text \<open>A group that throws a \<^verbatim>\<open>Symbol\<close>: not an \<^verbatim>\<open>Error\<close>, and not convertible to a string.\<close>

definition throws_symbol :: "(int json, int json) execute" where
  "throws_symbol e n a = Inl (OtherThrown False None None)"





definition plain_schema :: schema where
  "plain_schema = \<lparr>properties = None, required = None\<rparr>"

definition plain_tool :: "string \<Rightarrow> ToolDefinition" where
  "plain_tool n = \<lparr>name = n, description = None, inputSchema = plain_schema\<rparr>"

text \<open>The contact group publishes \<open>create_contact\<close>, the conversation group \<open>send_sms\<close>.\<close>

definition sample_defs :: "grp \<Rightarrow> ToolDefinition list" where
  "sample_defs g =
     (case g of
        contactTools \<Rightarrow> [plain_tool ''create_contact'']
      | conversationTools \<Rightarrow> [plain_tool ''send_sms'']
      | _ \<Rightarrow> [])"

text \<open>The contact group publishes a name that no static list carries.\<close>

definition stray_defs :: "grp \<Rightarrow> ToolDefinition list" where
  "stray_defs g =
     (case g of
        contactTools \<Rightarrow> [plain_tool ''delete_contact_permanently'']
      | _ \<Rightarrow> [])"

text \<open>Two groups publish a definition named \<open>x\<close>, with different descriptions.\<close>

definition duplicate_defs :: "grp \<Rightarrow> ToolDefinition list" where
  "duplicate_defs g =
     (case g of
        contactTools \<Rightarrow> [\<lparr>name = ''x'', description = Some ''first'', inputSchema = plain_schema\<rparr>]
      | conversationTools \<Rightarrow>
          [\<lparr>name = ''x'', description = Some ''second'', inputSchema = plain_schema\<rparr>]
      | _ \<Rightarrow> [])"

definition classified_sample :: "ToolDefinition list" where
  "classified_sample =
     map plain_tool
       [''send_sms'', ''get_contact_appointments'', ''create_contact'',
        ''create_email_template'', ''get_timezones'']"

text \<open>A catalog with one schematised tool, for the describe-one operation.\<close>

definition create_contact_tool :: ToolDefinition where
  "create_contact_tool =
     \<lparr>name = ''create_contact'', description = Some ''Create a new contact'',
      inputSchema =
        \<lparr>properties = Some [(''email'', ''string''), (''phone'', ''string''),
                             (''emailOptIn'', ''boolean''), (''__proto__'', ''string'')],
         required = Some [''email'', ''emailOptIn'', ''__proto__'']\<rparr>\<rparr>"

definition describe_defs :: "grp \<Rightarrow> ToolDefinition list" where
  "describe_defs g =
     (case g of
        contactTools \<Rightarrow> [create_contact_tool, plain_tool ''get_contact'']
      | conversationTools \<Rightarrow> [plain_tool ''send_sms'']
      | _ \<Rightarrow> [])"

section \<open>Properties\<close>

subsection \<open>Unfolding rules\<close>

lemmas http_membership_defs =
  isContactTool_def isConversationTool_def isBlogTool_def isOpportunityTool_def
  isCalendarTool_def isEmailTool_def isLocationTool_def isEmailISVTool_def
  isSocialMediaTool_def isMediaTool_def isObjectTool_def isAssociationTool_def
  isCustomFieldV2Tool_def isWorkflowTool_def isSurveyTool_def isStoreTool_def
  isProductsTool_def isPaymentsTool_def isInvoicesTool_def

lemmas http_name_lists =
  contactToolNames_def conversationToolNames_def blogToolNames_def opportunityToolNames_def
  calendarToolNames_def emailToolNames_def locationToolNames_def socialMediaToolNames_def
  mediaToolNames_def objectToolNames_def associationToolNames_def
  customFieldV2ToolNames_def surveyToolNames_def storeToolNames_def productsToolNames_def
  paymentsToolNames_def invoicesToolNames_def

lemmas stdio_membership_defs =
  stdio_isContactTool_def stdio_isConversationTool_def stdio_isBlogTool_def
  stdio_isOpportunityTool_def stdio_isCalendarTool_def stdio_isEmailTool_def
  stdio_isLocationTool_def stdio_isEmailISVTool_def stdio_isSocialMediaTool_def
  stdio_isMediaTool_def stdio_isObjectTool_def stdio_isAssociationTool_def
  stdio_isCustomFieldV2Tool_def stdio_isWorkflowTool_def stdio_isSurveyTool_def
  stdio_isStoreTool_def stdio_isProductsTool_def stdio_isPaymentsTool_def
  stdio_isInvoicesTool_def

subsection \<open>The two transports route alike\<close>

text \<open>
  Each membership test of \<^verbatim>\<open>server.ts\<close> carries the same names, in the same order, as
  the list of the same group in \<^verbatim>\<open>http-server.ts\<close>.
\<close>

lemma stdio_membership_eq:
  "stdio_isContactTool n = isContactTool n"
  "stdio_isConversationTool n = isConversationTool n"
  "stdio_isBlogTool n = isBlogTool n"
  "stdio_isOpportunityTool n = isOpportunityTool n"
  "stdio_isCalendarTool n = isCalendarTool n"
  "stdio_isEmailTool n = isEmailTool n"
  "stdio_isLocationTool n = isLocationTool n"
  "stdio_isEmailISVTool n = isEmailISVTool n"
  "stdio_isSocialMediaTool n = isSocialMediaTool n"
  "stdio_isMediaTool n = isMediaTool n"
  "stdio_isObjectTool n = isObjectTool n"
  "stdio_isAssociationTool n = isAssociationTool n"
  "stdio_isCustomFieldV2Tool n = isCustomFieldV2Tool n"
  "stdio_isWorkflowTool n = isWorkflowTool n"
  "stdio_isSurveyTool n = isSurveyTool n"
  "stdio_isStoreTool n = isStoreTool n"
  "stdio_isProductsTool n = isProductsTool n"
  "stdio_isPaymentsTool n = isPaymentsTool n"
  "stdio_isInvoicesTool n = isInvoicesTool n"
  unfolding stdio_membership_defs http_membership_defs http_name_lists by (rule refl)+

lemma stdio_route_eq: "stdio_route n = http_route n"
  unfolding stdio_route_def http_route_def stdio_membership_eq by (rule refl)

text \<open>
  Claim C10. For every tool name the routing chain of the stdio transport and the one of the
  HTTP transport resolve the name identically: every per-group membership test agrees, hence
  a name is routable on one transport exactly when it is routable on the other, and both
  chains pick the same execute entry point.
\<close>

theorem routing_chains_agree:
  "stdio_isContactTool n = isContactTool n
   \<and> stdio_isConversationTool n = isConversationTool n
   \<and> stdio_isBlogTool n = isBlogTool n
   \<and> stdio_isOpportunityTool n = isOpportunityTool n
   \<and> stdio_isCalendarTool n = isCalendarTool n
   \<and> stdio_isEmailTool n = isEmailTool n
   \<and> stdio_isLocationTool n = isLocationTool n
   \<and> stdio_isEmailISVTool n = isEmailISVTool n
   \<and> stdio_isSocialMediaTool n = isSocialMediaTool n
   \<and> stdio_isMediaTool n = isMediaTool n
   \<and> stdio_isObjectTool n = isObjectTool n
   \<and> stdio_isAssociationTool n = isAssociationTool n
   \<and> stdio_isCustomFieldV2Tool n = isCustomFieldV2Tool n
   \<and> stdio_isWorkflowTool n = isWorkflowTool n
   \<and> stdio_isSurveyTool n = isSurveyTool n
   \<and> stdio_isStoreTool n = isStoreTool n
   \<and> stdio_isProductsTool n = isProductsTool n
   \<and> stdio_isPaymentsTool n = isPaymentsTool n
   \<and> stdio_isInvoicesTool n = isInvoicesTool n
   \<and> (stdio_route n = None) = (http_route n = None)
   \<and> stdio_route n = http_route n"
  by (simp only: stdio_membership_eq stdio_route_eq simp_thms)

subsection \<open>The static lists are pairwise disjoint\<close>

text \<open>
  Equality of string literals is decided character by character, stopping at the first
  difference.
\<close>

lemma Cons_eq_if: "(x # xs = y # ys) = (if x = y then xs = ys else False)"
  by simp

lemma Char_eq_if:
  "(Char a0 a1 a2 a3 a4 a5 a6 a7 = Char b0 b1 b2 b3 b4 b5 b6 b7) =
   (if a0 = b0 then if a1 = b1 then if a2 = b2 then if a3 = b3 then
    if a4 = b4 then if a5 = b5 then if a6 = b6 then a7 = b7
    else False else False else False else False else False else False else False)"
  by simp

lemma map_fst_routing_table:
  "map fst routing_table =
     contactToolNames @ conversationToolNames @ blogToolNames @ opportunityToolNames
     @ calendarToolNames @ emailToolNames @ locationToolNames @ [''verify_email'']
     @ socialMediaToolNames @ mediaToolNames @ objectToolNames @ associationToolNames
     @ customFieldV2ToolNames @ [''ghl_get_workflows''] @ surveyToolNames @ storeToolNames
     @ productsToolNames @ paymentsToolNames @ invoicesToolNames"
  by (simp add: routing_table_def comp_def)

lemma distinct_routing_names: "distinct (map fst routing_table)"
  unfolding map_fst_routing_table
  by (simp only: http_name_lists append.simps distinct.simps list.set insert_iff empty_iff
      Cons_eq_if Char_eq_if list.distinct simp_thms de_Morgan_disj if_True if_False
      cong: if_weak_cong)

lemma owns_iff_table: "owns g n \<longleftrightarrow> (n, g) \<in> set routing_table"
  by (cases g) (auto simp: routing_table_def http_membership_defs)

lemma owner_unique: "owns g n \<Longrightarrow> owns g' n \<Longrightarrow> g = g'"
  unfolding owns_iff_table
  using distinct_routing_names by (rule eq_key_imp_eq_value)

subsection \<open>The chains and the routing table\<close>

lemma route_None_iff: "http_route n = None \<longleftrightarrow> n \<notin> set (map fst routing_table)"
  unfolding map_fst_routing_table
  by (simp add: http_route_def http_membership_defs)

lemma route_of_owner: "owns g n \<Longrightarrow> http_route n = Some (entry_point g)"
proof -
  assume o: "owns g n"
  have u: "\<And>g'. owns g' n = (g' = g)" using o owner_unique by blast
  have *: "isContactTool n = (contactTools = g)" "isConversationTool n = (conversationTools = g)"
    "isBlogTool n = (blogTools = g)" "isOpportunityTool n = (opportunityTools = g)"
    "isCalendarTool n = (calendarTools = g)" "isEmailTool n = (emailTools = g)"
    "isLocationTool n = (locationTools = g)" "isEmailISVTool n = (emailISVTools = g)"
    "isSocialMediaTool n = (socialMediaTools = g)" "isMediaTool n = (mediaTools = g)"
    "isObjectTool n = (objectTools = g)" "isAssociationTool n = (associationTools = g)"
    "isCustomFieldV2Tool n = (customFieldV2Tools = g)" "isWorkflowTool n = (workflowTools = g)"
    "isSurveyTool n = (surveyTools = g)" "isStoreTool n = (storeTools = g)"
    "isProductsTool n = (productsTools = g)" "isPaymentsTool n = (paymentsTools = g)"
    "isInvoicesTool n = (invoicesTools = g)"
    using u[of contactTools] u[of conversationTools] u[of blogTools] u[of opportunityTools]
      u[of calendarTools] u[of emailTools] u[of locationTools] u[of emailISVTools]
      u[of socialMediaTools] u[of mediaTools] u[of objectTools] u[of associationTools]
      u[of customFieldV2Tools] u[of workflowTools] u[of surveyTools] u[of storeTools]
      u[of productsTools] u[of paymentsTools] u[of invoicesTools]
    by simp_all
  show ?thesis unfolding http_route_def * by (cases g) simp_all
qed

lemma routed_iff_owned: "n \<in> set (map fst routing_table) \<longleftrightarrow> (\<exists>g. owns g n)"
  unfolding owns_iff_table by force

subsection \<open>Unknown tools\<close>

lemma str_includes_unknown_prefix:
  "str_includes (''Unknown tool: '' @ n) ''404'' = str_includes n ''404''"
  by simp

lemma http_catch_unknown:
  "http_catch (unknown_tool n) =
     McpError (if str_includes n ''404'' then InvalidRequest else InternalError)
       (''Tool execution failed: Error: Unknown tool: '' @ n)"
  unfolding http_catch_def unknown_tool_def errorCode.simps str_includes_unknown_prefix
  by simp

text \<open>
  Claim C1, as the code has it. For every tool name that no static list carries, both
  handlers fail without calling any execute entry point, and the failure names the tool.
  On the HTTP transport the failure is the \<^verbatim>\<open>McpError\<close> built by the \<^verbatim>\<open>catch\<close> block: of
  class \<open>InternalError\<close>, unless the name itself contains \<open>404\<close>, when it is of class
  \<open>InvalidRequest\<close>. On the stdio transport the plain \<^verbatim>\<open>Error\<close> leaves the handler.
\<close>

theorem unknown_tool_rejected:
  assumes "n \<notin> set (map fst routing_table)"
  shows "http_callTool exec stringify n args =
           (Inl (McpError (if str_includes n ''404'' then InvalidRequest else InternalError)
                   (''Tool execution failed: Error: Unknown tool: '' @ n)), [])
         \<and> stdio_callTool exec stringify n args =
           (Inl (Uncaught (ErrorObject ''Error'' (''Unknown tool: '' @ n))), [])"
proof -
  have h: "http_route n = None" using assms route_None_iff by blast
  then have s: "stdio_route n = None" by (simp only: stdio_route_eq)
  show ?thesis
    unfolding http_callTool_def stdio_callTool_def h s http_catch_unknown
    by (simp add: unknown_tool_def)
qed

theorem unknown_tool_rejected_witness:
  "''delete_contact_permanently'' \<notin> set (map fst routing_table)
   \<and> http_callTool returns_null sample_text ''delete_contact_permanently'' None =
       (Inl (McpError InternalError
          ''Tool execution failed: Error: Unknown tool: delete_contact_permanently''), [])
   \<and> stdio_callTool returns_null sample_text ''delete_contact_permanently'' None =
       (Inl (Uncaught (ErrorObject ''Error'' ''Unknown tool: delete_contact_permanently'')), [])"
proof -
  have r: "http_route ''delete_contact_permanently'' = None"
    by (simp add: http_route_def http_membership_defs http_name_lists)
  then have h: "''delete_contact_permanently'' \<notin> set (map fst routing_table)"
    using route_None_iff by blast
  show ?thesis
    using h unknown_tool_rejected [OF h, of returns_null sample_text None] by simp
qed

text \<open>
  The claim as it was stated asks for an unknown-tool error that is not of class
  \<open>InternalError\<close>; the HTTP handler answers \<open>delete_contact_permanently\<close> with exactly
  that class.
\<close>

theorem unknown_tool_is_internal_error:
  "fst (http_callTool returns_null sample_text ''delete_contact_permanently'' None) =
     Inl (McpError InternalError
       ''Tool execution failed: Error: Unknown tool: delete_contact_permanently'')"
proof -
  have r: "http_route ''delete_contact_permanently'' = None"
    by (simp add: http_route_def http_membership_defs http_name_lists)
  show ?thesis
    unfolding http_callTool_def r http_catch_unknown by simp
qed

subsection \<open>Failures of a capability group\<close>

lemma http_catch_ErrorObject:
  "http_catch (ErrorObject nm msg) =
     McpError (if str_includes msg ''404'' then InvalidRequest else InternalError)
       (''Tool execution failed: ''
          @ (if nm = [] then msg else if msg = [] then nm else nm @ '': '' @ msg))"
  by (simp add: http_catch_def)

lemma http_catch_NonError:
  "http_catch (NonError s) = McpError InternalError (''Tool execution failed: '' @ s)"
  by (simp add: http_catch_def)

lemma http_catch_OtherThrown:
  "http_catch (OtherThrown isError includes404 rendering) =
     (case rendering of
        None \<Rightarrow> ThrownInCatch
      | Some r \<Rightarrow>
          if isError \<and> includes404 = None then ThrownInCatch
          else McpError (if isError \<and> includes404 = Some True then InvalidRequest
                         else InternalError)
                 (''Tool execution failed: '' @ r))"
  by (auto simp: http_catch_def split: option.splits)

lemma http_failure: 
  "http_route n = Some e \<Longrightarrow> exec e n (args_or_empty args) = Inl err \<Longrightarrow>
     fst (http_callTool exec stringify n args) = Inl (http_catch err)"
  unfolding http_callTool_def by simp

text \<open>
  Claim C2, as the code has it. On the HTTP transport a value thrown by the execute entry
  point is caught. An \<^verbatim>\<open>Error\<close> with a string name and message is turned into one
  \<^verbatim>\<open>McpError\<close> whose message is \<open>Tool execution failed: \<close> followed by its rendering, of
  class \<open>InvalidRequest\<close> when the message contains the substring \<open>404\<close> and of class
  \<open>InternalError\<close> when it does not. A value that is not an \<^verbatim>\<open>Error\<close> and converts to a
  string is turned into an \<^verbatim>\<open>McpError\<close> of class \<open>InternalError\<close>. For any other value:
  when the \<open>404\<close> test or the conversion to a string throws, that error leaves the
  handler and no \<^verbatim>\<open>McpError\<close> is built; otherwise the class is \<open>InvalidRequest\<close> exactly
  when the value is an \<^verbatim>\<open>Error\<close> and the test yields true.
\<close>

theorem http_failure_translated:
  assumes "http_route n = Some e" and "exec e n (args_or_empty args) = Inl err"
  shows "(\<forall>nm msg. err = ErrorObject nm msg \<longrightarrow>
            fst (http_callTool exec stringify n args) =
              Inl (McpError (if str_includes msg ''404'' then InvalidRequest else InternalError)
                    (''Tool execution failed: ''
                       @ (if nm = [] then msg else if msg = [] then nm
                          else nm @ '': '' @ msg))))
         \<and> (\<forall>s. err = NonError s \<longrightarrow>
            fst (http_callTool exec stringify n args) =
              Inl (McpError InternalError (''Tool execution failed: '' @ s)))
         \<and> (\<forall>isError includes404. err = OtherThrown isError includes404 None \<longrightarrow>
            fst (http_callTool exec stringify n args) = Inl ThrownInCatch)
         \<and> (\<forall>rendering. err = OtherThrown True None rendering \<longrightarrow>
            fst (http_callTool exec stringify n args) = Inl ThrownInCatch)
         \<and> (\<forall>b r. err = OtherThrown True (Some b) (Some r) \<longrightarrow>
            fst (http_callTool exec stringify n args) =
              Inl (McpError (if b then InvalidRequest else InternalError)
                    (''Tool execution failed: '' @ r)))
         \<and> (\<forall>includes404 r. err = OtherThrown False includes404 (Some r) \<longrightarrow>
            fst (http_callTool exec stringify n args) =
              Inl (McpError InternalError (''Tool execution failed: '' @ r)))"
proof -
  have h: "fst (http_callTool exec stringify n args) = Inl (http_catch err)"
    using assms by (rule http_failure)
  show ?thesis
    unfolding h
    by (intro conjI allI impI)
       (simp_all add: http_catch_ErrorObject http_catch_NonError http_catch_OtherThrown
          split: option.splits)
qed

lemma route_get_contact: "http_route ''get_contact'' = Some (contactTools, ''executeTool'')"
  by (simp add: http_route_def http_membership_defs http_name_lists)

theorem http_failure_translated_witness:
  "http_route ''get_contact'' = Some (contactTools, ''executeTool'')
   \<and> throws_404 (contactTools, ''executeTool'') ''get_contact'' (args_or_empty None) =
       Inl (ErrorObject ''Error'' ''Request failed with status code 404'')
   \<and> fst (http_callTool throws_404 sample_text ''get_contact'' None) =
       Inl (McpError InvalidRequest
         ''Tool execution failed: Error: Request failed with status code 404'')"
proof -
  have e: "throws_404 (contactTools, ''executeTool'') ''get_contact'' (args_or_empty None) =
       Inl (ErrorObject ''Error'' ''Request failed with status code 404'')"
    by (simp add: throws_404_def)
  from http_failure_translated [where exec = throws_404 and args = None
        and stringify = sample_text, OF route_get_contact e]
  have "fst (http_callTool throws_404 sample_text ''get_contact'' None) =
        Inl (McpError (if str_includes ''Request failed with status code 404'' ''404''
                       then InvalidRequest else InternalError)
              (''Tool execution failed: ''
                 @ (if ''Error'' = [] then ''Request failed with status code 404''
                    else if ''Request failed with status code 404'' = [] then ''Error''
                    else ''Error'' @ '': '' @ ''Request failed with status code 404'')))"
    by blast
  then show ?thesis using route_get_contact e by simp
qed

text \<open>
  The claim as it was stated fails three times: a failure whose message says
  \<open>not found\<close> without the digits is classed \<open>InternalError\<close> by the HTTP handler; a
  thrown \<^verbatim>\<open>Symbol\<close> makes the \<^verbatim>\<open>catch\<close> block itself throw, so that no protocol error is
  built; and the stdio handler translates nothing, the thrown value leaves it as it is.
\<close>

theorem failure_translation_counterexample:
  "fst (http_callTool throws_not_found sample_text ''get_contact'' None) =
     Inl (McpError InternalError ''Tool execution failed: Error: Contact not found'')
   \<and> fst (http_callTool throws_symbol sample_text ''get_contact'' None) = Inl ThrownInCatch
   \<and> fst (stdio_callTool throws_404 sample_text ''get_contact'' None) =
     Inl (Uncaught (ErrorObject ''Error'' ''Request failed with status code 404''))"
  unfolding http_callTool_def stdio_callTool_def stdio_route_eq route_get_contact
  by (simp add: throws_not_found_def throws_404_def throws_symbol_def http_catch_def)

subsection \<open>Successful invocations\<close>

lemma http_calls:
  "http_route n = Some e \<Longrightarrow>
     snd (http_callTool exec stringify n args) = [(e, n, args_or_empty args)]"
  unfolding http_callTool_def by (simp split: sum.splits)

lemma stdio_calls:
  "http_route n = Some e \<Longrightarrow>
     snd (stdio_callTool exec stringify n args) = [(e, n, args_or_empty args)]"
  unfolding stdio_callTool_def stdio_route_eq by (simp split: sum.splits)

lemma args_or_empty_None: "args_or_empty None = Map.empty"
  by (simp add: args_or_empty_def)











subsection \<open>Names of the static lists resolve\<close>

text \<open>
  Claim C3, as the code has it. The chains consult the static lists, not the catalog. For
  every tool name carried by a static list exactly one group owns it, both chains resolve
  it to that group's execute entry point, and dispatching it with no arguments calls that
  entry point once with the empty mapping; the unknown-tool branch is not taken.
\<close>

theorem listed_names_dispatch:
  fixes exec :: "('v, 'r) execute"
  assumes "n \<in> set (map fst routing_table)"
  shows "(\<exists>!g. owns g n)
         \<and> (\<exists>g. owns g n
               \<and> http_route n = Some (entry_point g)
               \<and> stdio_route n = Some (entry_point g)
               \<and> snd (http_callTool exec stringify n None) = [(entry_point g, n, Map.empty)]
               \<and> snd (stdio_callTool exec stringify n None) = [(entry_point g, n, Map.empty)])"
proof -
  from assms obtain g where o: "owns g n" using routed_iff_owned by blast
  have u: "\<exists>!g. owns g n" using o owner_unique by blast
  have r: "http_route n = Some (entry_point g)" using o by (rule route_of_owner)
  have s: "stdio_route n = Some (entry_point g)" using r by (simp only: stdio_route_eq)
  have c1: "snd (http_callTool exec stringify n None) = [(entry_point g, n, Map.empty)]"
    using http_calls [OF r, of exec stringify None] by (simp only: args_or_empty_None)
  have c2: "snd (stdio_callTool exec stringify n None) = [(entry_point g, n, Map.empty)]"
    using stdio_calls [OF r, of exec stringify None] by (simp only: args_or_empty_None)
  show ?thesis using u o r s c1 c2 by blast
qed

lemma route_send_sms: "http_route ''send_sms'' = Some (conversationTools, ''executeTool'')"
  by (simp add: http_route_def http_membership_defs http_name_lists)

theorem listed_names_dispatch_witness:
  "''send_sms'' \<in> set (map fst routing_table)
   \<and> (\<exists>!g. owns g ''send_sms'')
   \<and> owns conversationTools ''send_sms''
   \<and> http_route ''send_sms'' = Some (conversationTools, ''executeTool'')
   \<and> stdio_route ''send_sms'' = Some (conversationTools, ''executeTool'')"
proof -
  have h: "''send_sms'' \<in> set (map fst routing_table)"
    using route_send_sms route_None_iff [of "''send_sms''"] by simp
  have o: "owns conversationTools ''send_sms''"
    by (simp add: isConversationTool_def conversationToolNames_def)
  from listed_names_dispatch [OF h, of returns_null sample_text]
  have "\<exists>!g. owns g ''send_sms''" by blast
  then show ?thesis using h o route_send_sms by (simp add: stdio_route_eq)
qed

text \<open>
  The claim as it was stated ranges over the catalog: a group that publishes a definition
  whose name is on no static list puts a name into the catalog that both chains send to
  the unknown-tool branch.
\<close>

lemma getAllTools_stray:
  "map name (getAllTools stray_defs) = [''delete_contact_permanently'']"
  by (simp add: getAllTools_def stray_defs_def plain_tool_def)

theorem catalog_name_unknown_counterexample:
  "''delete_contact_permanently'' \<in> set (map name (getAllTools stray_defs))
   \<and> http_route ''delete_contact_permanently'' = None
   \<and> stdio_route ''delete_contact_permanently'' = None
   \<and> snd (http_callTool returns_null sample_text ''delete_contact_permanently'' None) = []
   \<and> snd (stdio_callTool returns_null sample_text ''delete_contact_permanently'' None) = []"
proof -
  have r: "http_route ''delete_contact_permanently'' = None"
    by (simp add: http_route_def http_membership_defs http_name_lists)
  show ?thesis
    unfolding getAllTools_stray http_callTool_def stdio_callTool_def stdio_route_eq r
    by simp
qed

subsection \<open>Aggregation\<close>

lemma getAllTools_concat: "getAllTools defs = concat (map defs groups)"
  by (simp add: getAllTools_def groups_def)

lemma stdio_getAllTools_eq: "stdio_getAllTools defs = getAllTools defs"
  by (simp add: getAllTools_def stdio_getAllTools_def)

lemma in_groups: "g \<in> set groups"
  by (cases g) (simp_all add: groups_def)

lemma distinct_groups: "distinct groups"
  by (simp add: groups_def)

lemma shared_image_not_distinct:
  "distinct gs \<Longrightarrow> g \<in> set gs \<Longrightarrow> g' \<in> set gs \<Longrightarrow> g \<noteq> g' \<Longrightarrow>
   t \<in> set (defs g) \<Longrightarrow> t' \<in> set (defs g') \<Longrightarrow> f t = f t' \<Longrightarrow>
   \<not> distinct (map f (concat (map defs gs)))"
proof (induction gs)
  case Nil
  then show ?case by simp
next
  case (Cons a gs)
  show ?case
  proof (cases "g \<in> set gs \<and> g' \<in> set gs")
    case True
    then have "\<not> distinct (map f (concat (map defs gs)))"
      using Cons by simp
    then show ?thesis by simp
  next
    case False
    then consider "a = g" "g' \<in> set gs" | "a = g'" "g \<in> set gs"
      using Cons.prems by auto
    then show ?thesis
    proof cases
      case 1
      have a: "f t \<in> f ` set (defs a)" using 1(1) Cons.prems(5) by blast
      have "f t' \<in> f ` set (concat (map defs gs))" using 1(2) Cons.prems(6) by auto
      then have "f t \<in> f ` set (concat (map defs gs))" by (simp only: Cons.prems(7))
      then show ?thesis using a by auto
    next
      case 2
      have a: "f t' \<in> f ` set (defs a)" using 2(1) Cons.prems(6) by blast
      have b: "f t \<in> f ` set (concat (map defs gs))" using 2(2) Cons.prems(5) by auto
      have "f t \<in> f ` set (defs a)" using a by (simp only: Cons.prems(7))
      then show ?thesis using b by auto
    qed
  qed
qed

text \<open>
  Claim C4, as the code has it. \<^verbatim>\<open>getAllTools\<close> is the concatenation of the groups'
  definitions in registration order, in both entry points; it checks nothing. When two
  different groups publish definitions of the same name, both definitions are in the
  catalog and the catalog's names are not distinct.
\<close>

theorem getAllTools_keeps_duplicates:
  assumes "g \<noteq> g'" and "t \<in> set (defs g)" and "t' \<in> set (defs g')"
    and "name t = name t'"
  shows "getAllTools defs = concat (map defs groups)
         \<and> stdio_getAllTools defs = concat (map defs groups)
         \<and> t \<in> set (getAllTools defs) \<and> t' \<in> set (getAllTools defs)
         \<and> \<not> distinct (map name (getAllTools defs))"
proof -
  have m: "t \<in> set (getAllTools defs)" "t' \<in> set (getAllTools defs)"
    unfolding getAllTools_concat using assms in_groups by auto
  have "\<not> distinct (map name (concat (map defs groups)))"
    using shared_image_not_distinct [OF distinct_groups in_groups in_groups assms] .
  then show ?thesis
    using m by (simp add: getAllTools_concat stdio_getAllTools_eq)
qed

theorem getAllTools_keeps_duplicates_witness:
  "contactTools \<noteq> conversationTools
   \<and> \<lparr>name = ''x'', description = Some ''first'', inputSchema = plain_schema\<rparr>
       \<in> set (duplicate_defs contactTools)
   \<and> \<lparr>name = ''x'', description = Some ''second'', inputSchema = plain_schema\<rparr>
       \<in> set (duplicate_defs conversationTools)
   \<and> getAllTools duplicate_defs =
       [\<lparr>name = ''x'', description = Some ''first'', inputSchema = plain_schema\<rparr>,
        \<lparr>name = ''x'', description = Some ''second'', inputSchema = plain_schema\<rparr>]
   \<and> \<not> distinct (map name (getAllTools duplicate_defs))"
proof -
  have 1: "contactTools \<noteq> conversationTools" by simp
  have 2: "\<lparr>name = ''x'', description = Some ''first'', inputSchema = plain_schema\<rparr>
       \<in> set (duplicate_defs contactTools)" by (simp add: duplicate_defs_def)
  have 3: "\<lparr>name = ''x'', description = Some ''second'', inputSchema = plain_schema\<rparr>
       \<in> set (duplicate_defs conversationTools)" by (simp add: duplicate_defs_def)
  have 4: "name \<lparr>name = ''x'', description = Some ''first'', inputSchema = plain_schema\<rparr>
       = name \<lparr>name = ''x'', description = Some ''second'', inputSchema = plain_schema\<rparr>"
    by simp
  have 5: "getAllTools duplicate_defs =
       [\<lparr>name = ''x'', description = Some ''first'', inputSchema = plain_schema\<rparr>,
        \<lparr>name = ''x'', description = Some ''second'', inputSchema = plain_schema\<rparr>]"
    by (simp add: getAllTools_def duplicate_defs_def)
  from getAllTools_keeps_duplicates [OF 1 2 3 4]
  have "\<not> distinct (map name (getAllTools duplicate_defs))" by blast
  then show ?thesis using 1 2 3 5 by blast
qed

text \<open>
  The claim as it was stated wants construction to fail; with two groups publishing
  \<open>x\<close> the catalog is built and lists \<open>x\<close> twice.
\<close>

theorem duplicate_names_accepted:
  "map name (getAllTools duplicate_defs) = [''x'', ''x'']
   \<and> map name (stdio_getAllTools duplicate_defs) = [''x'', ''x'']"
  by (simp add: getAllTools_def stdio_getAllTools_def duplicate_defs_def)

subsection \<open>The category classifier\<close>

lemma bucket_of_label: "bucket_of s \<in> set category_labels"
  by (simp add: bucket_of_def category_labels_def empty_categories_def)

lemma distinct_labels: "distinct category_labels"
  by (simp add: category_labels_def empty_categories_def)

lemma empty_categories_labels: "empty_categories = map (\<lambda>k. (k, [])) category_labels"
  by (simp add: category_labels_def empty_categories_def)

lemma bucket_of_spec: "bucket_of (toLowerCase n) = spec_classify n"
  by (simp add: bucket_of_def spec_classify_def priority_order_def)

lemma fold_push:
  "fold (\<lambda>tool cats. push (f tool) (g tool) cats) tools cats =
     map (\<lambda>(k, vs). (k, vs @ map g (filter (\<lambda>t. f t = k) tools))) cats"
proof (induction tools arbitrary: cats)
  case Nil
  then show ?case by (simp add: case_prod_beta)
next
  case (Cons t tools)
  have "fold (\<lambda>tool cats. push (f tool) (g tool) cats) (t # tools) cats =
        fold (\<lambda>tool cats. push (f tool) (g tool) cats) tools (push (f t) (g t) cats)"
    by simp
  also have "\<dots> =
      map (\<lambda>(k, vs). (k, vs @ map g (filter (\<lambda>t. f t = k) tools))) (push (f t) (g t) cats)"
    by (rule Cons.IH)
  also have "\<dots> =
      map (\<lambda>(k, vs). (k, vs @ map g (filter (\<lambda>t. f t = k) (t # tools)))) cats"
    by (auto simp: push_def case_prod_beta)
  finally show ?case .
qed

lemma categorizeTools_eq:
  "categorizeTools tools =
     map (\<lambda>k. \<lparr>category_name = k, category_count = length (members tools k),
                 category_tools = sort (members tools k)\<rparr>)
       (filter (\<lambda>k. members tools k \<noteq> []) category_labels)"
  unfolding categorizeTools_def Let_def fold_push empty_categories_labels
  by (simp add: filter_map comp_def members_def)

lemma DescribeHandler_categorizeTools_eq:
  "DescribeHandler_categorizeTools tools = categorizeTools tools"
  by (simp add: DescribeHandler_categorizeTools_def categorizeTools_def)


lemma in_categorizeTools:
  "c \<in> set (categorizeTools tools) \<longleftrightarrow>
     (\<exists>k \<in> set category_labels. members tools k \<noteq> []
        \<and> c = \<lparr>category_name = k, category_count = length (members tools k),
                  category_tools = sort (members tools k)\<rparr>)"
  unfolding categorizeTools_eq by auto

lemma name_in_members:
  "n \<in> set (members tools k) \<longleftrightarrow> n \<in> name ` set tools \<and> bucket_of (toLowerCase n) = k"
  unfolding members_def by auto

lemma category_of_tool:
  assumes "t \<in> set tools"
  shows "\<lparr>category_name = bucket_of (toLowerCase (name t)),
          category_count = length (members tools (bucket_of (toLowerCase (name t)))),
          category_tools = sort (members tools (bucket_of (toLowerCase (name t))))\<rparr>
         \<in> set (categorizeTools tools)"
proof -
  have "name t \<in> set (members tools (bucket_of (toLowerCase (name t))))"
    using assms by (simp add: name_in_members)
  then have "members tools (bucket_of (toLowerCase (name t))) \<noteq> []" by auto
  then show ?thesis unfolding in_categorizeTools using bucket_of_label by blast
qed

lemma category_unique:
  assumes "c \<in> set (categorizeTools tools)" and "n \<in> set (category_tools c)"
  shows "c = \<lparr>category_name = bucket_of (toLowerCase n),
          category_count = length (members tools (bucket_of (toLowerCase n))),
          category_tools = sort (members tools (bucket_of (toLowerCase n)))\<rparr>"
proof -
  from assms(1) obtain k where k: "c = \<lparr>category_name = k,
      category_count = length (members tools k), category_tools = sort (members tools k)\<rparr>"
    unfolding in_categorizeTools by blast
  with assms(2) have "n \<in> set (members tools k)" by simp
  then have "bucket_of (toLowerCase n) = k" by (simp add: name_in_members)
  with k show ?thesis by simp
qed

lemma exactly_one_category:
  assumes "t \<in> set tools"
  shows "\<exists>!c. c \<in> set (categorizeTools tools) \<and> name t \<in> set (category_tools c)"
proof (rule ex1I)
  show "\<lparr>category_name = bucket_of (toLowerCase (name t)),
          category_count = length (members tools (bucket_of (toLowerCase (name t)))),
          category_tools = sort (members tools (bucket_of (toLowerCase (name t))))\<rparr>
         \<in> set (categorizeTools tools)
        \<and> name t \<in> set (category_tools \<lparr>category_name = bucket_of (toLowerCase (name t)),
          category_count = length (members tools (bucket_of (toLowerCase (name t)))),
          category_tools = sort (members tools (bucket_of (toLowerCase (name t))))\<rparr>)"
    using category_of_tool [OF assms] assms by (simp add: name_in_members)
next
  fix c
  assume "c \<in> set (categorizeTools tools) \<and> name t \<in> set (category_tools c)"
  then show "c = \<lparr>category_name = bucket_of (toLowerCase (name t)),
          category_count = length (members tools (bucket_of (toLowerCase (name t)))),
          category_tools = sort (members tools (bucket_of (toLowerCase (name t))))\<rparr>"
    using category_unique by blast
qed

lemma category_shape:
  assumes "c \<in> set (categorizeTools tools)"
  shows "sorted (category_tools c) \<and> category_tools c \<noteq> []
         \<and> category_count c = length (category_tools c)
         \<and> set (category_tools c) \<subseteq> name ` set tools"
proof -
  from assms obtain k where k: "members tools k \<noteq> []" "c = \<lparr>category_name = k,
      category_count = length (members tools k), category_tools = sort (members tools k)\<rparr>"
    unfolding in_categorizeTools by blast
  have "set (members tools k) \<subseteq> name ` set tools" by (auto simp: name_in_members)
  moreover have "sort (members tools k) \<noteq> []"
    using k(1) by (metis length_sort length_0_conv)
  ultimately show ?thesis using k by simp
qed

lemma distinct_category_names: "distinct (map category_name (categorizeTools tools))"
  unfolding categorizeTools_eq
  by (simp add: comp_def distinct_labels)

lemma indicator_sum_absent:
  "k \<notin> set ks \<Longrightarrow> (\<Sum>k'\<leftarrow>ks. if k = k' then {#x#} else {#}) = {#}"
  by (induction ks) auto

lemma sum_list_nonempty_only:
  "(\<Sum>k\<leftarrow>filter (\<lambda>k. g k \<noteq> []) ks. mset (g k)) = (\<Sum>k\<leftarrow>ks. mset (g k))"
  by (induction ks) auto

lemma sum_list_image_mset:
  "(\<Sum>k\<leftarrow>ks. image_mset h (F k)) = image_mset h (\<Sum>k\<leftarrow>ks. F k)"
  by (induction ks) auto

lemma indicator_sum:
  "distinct ks \<Longrightarrow> k \<in> set ks \<Longrightarrow>
     (\<Sum>k'\<leftarrow>ks. if k = k' then {#x#} else {#}) = {#x#}"
  by (induction ks) (auto simp: indicator_sum_absent)

lemma mset_buckets:
  "distinct ks \<Longrightarrow> \<forall>x\<in>set xs. f x \<in> set ks \<Longrightarrow>
     (\<Sum>k\<leftarrow>ks. mset (filter (\<lambda>x. f x = k) xs)) = mset xs"
proof (induction xs)
  case Nil
  then show ?case by (induction ks) auto
next
  case (Cons x xs)
  have "(\<Sum>k\<leftarrow>ks. mset (filter (\<lambda>x. f x = k) (x # xs))) =
        (\<Sum>k\<leftarrow>ks. (if f x = k then {#x#} else {#}) + mset (filter (\<lambda>x. f x = k) xs))"
    by (rule arg_cong [where f = sum_list]) auto
  also have "\<dots> = (\<Sum>k\<leftarrow>ks. if f x = k then {#x#} else {#})
                  + (\<Sum>k\<leftarrow>ks. mset (filter (\<lambda>x. f x = k) xs))"
    by (simp add: sum_list_addf)
  also have "\<dots> = {#x#} + mset xs"
    using Cons indicator_sum [of ks "f x" x] by simp
  finally show ?case by simp
qed

lemma every_tool_once:
  "mset (concat (map category_tools (categorizeTools tools))) = mset (map name tools)"
proof -
  have "mset (concat (map category_tools (categorizeTools tools))) =
        (\<Sum>k\<leftarrow>filter (\<lambda>k. members tools k \<noteq> []) category_labels. mset (members tools k))"
    unfolding categorizeTools_eq by (simp add: mset_concat comp_def)
  also have "\<dots> = (\<Sum>k\<leftarrow>category_labels. mset (members tools k))"
    by (rule sum_list_nonempty_only)
  also have "\<dots> = (\<Sum>k\<leftarrow>category_labels.
                  image_mset name (mset (filter (\<lambda>t. bucket_of (toLowerCase (name t)) = k) tools)))"
    by (simp add: members_def)
  also have "\<dots> = image_mset name (\<Sum>k\<leftarrow>category_labels.
                  mset (filter (\<lambda>t. bucket_of (toLowerCase (name t)) = k) tools))"
    by (rule sum_list_image_mset)
  also have "\<dots> = image_mset name (mset tools)"
    using mset_buckets [OF distinct_labels, of tools "\<lambda>t. bucket_of (toLowerCase (name t))"]
      bucket_of_label by simp
  finally show ?thesis by simp
qed

text \<open>
  Claim C6. The chain of \<^verbatim>\<open>categorizeTools\<close>, applied to the lower-cased name, is the
  first-match rule over the fixed priority order Contact, Messaging, Sales, Calendar,
  Payments, Marketing, Operations, Custom Objects, Other with the cue substrings of each
  label; and every tool is filed, in both copies of \<^verbatim>\<open>categorizeTools\<close>, under the label
  that rule gives its name.
\<close>

theorem classifier_priority_order:
  "bucket_of (toLowerCase n) = spec_classify n
   \<and> (\<forall>t\<in>set tools. \<exists>c\<in>set (categorizeTools tools).
         category_name c = spec_classify (name t) \<and> name t \<in> set (category_tools c))
   \<and> (\<forall>t\<in>set tools. \<exists>c\<in>set (DescribeHandler_categorizeTools tools).
         category_name c = spec_classify (name t) \<and> name t \<in> set (category_tools c))"
proof -
  have 1: "\<exists>c\<in>set (categorizeTools tools).
         category_name c = spec_classify (name t) \<and> name t \<in> set (category_tools c)"
    if "t \<in> set tools" for t
    using category_of_tool [OF that] that
    by (intro bexI [where x = "\<lparr>category_name = bucket_of (toLowerCase (name t)),
          category_count = length (members tools (bucket_of (toLowerCase (name t)))),
          category_tools = sort (members tools (bucket_of (toLowerCase (name t))))\<rparr>"])
       (simp_all add: bucket_of_spec name_in_members)
  show ?thesis
    using 1 by (simp add: bucket_of_spec DescribeHandler_categorizeTools_eq)
qed

lemma categorizeTools_sample:
  "categorizeTools classified_sample =
     [\<lparr>category_name = ''Contact Management'', category_count = 2,
        category_tools = [''create_contact'', ''get_contact_appointments'']\<rparr>,
      \<lparr>category_name = ''Messaging & Communication'', category_count = 2,
        category_tools = [''create_email_template'', ''send_sms'']\<rparr>,
      \<lparr>category_name = ''Other'', category_count = 1,
        category_tools = [''get_timezones'']\<rparr>]"
  by (simp add: categorizeTools_def classified_sample_def plain_tool_def push_def
      empty_categories_def toLowerCase_def bucket_of_def)

theorem classifier_priority_order_witness:
  "spec_classify ''get_contact_appointments'' = ''Contact Management''
   \<and> bucket_of (toLowerCase ''get_contact_appointments'') = ''Contact Management''
   \<and> plain_tool ''get_contact_appointments'' \<in> set classified_sample
   \<and> (\<exists>c\<in>set (categorizeTools classified_sample).
         category_name c = ''Contact Management''
         \<and> ''get_contact_appointments'' \<in> set (category_tools c))"
proof -
  have s: "spec_classify ''get_contact_appointments'' = ''Contact Management''"
    by (simp add: spec_classify_def priority_order_def toLowerCase_def)
  have m: "plain_tool ''get_contact_appointments'' \<in> set classified_sample"
    by (simp add: classified_sample_def)
  have n: "name (plain_tool ''get_contact_appointments'') = ''get_contact_appointments''"
    by (simp add: plain_tool_def)
  from classifier_priority_order [of "''get_contact_appointments''" classified_sample]
  have "bucket_of (toLowerCase ''get_contact_appointments'') =
          spec_classify ''get_contact_appointments''"
    and "\<forall>t\<in>set classified_sample. \<exists>c\<in>set (categorizeTools classified_sample).
         category_name c = spec_classify (name t) \<and> name t \<in> set (category_tools c)"
    by blast+
  then show ?thesis using s m n by (metis)
qed

text \<open>
  Claim C7. For every input sequence every tool's name is a member of exactly one category
  of the output; every category of the output has a sorted, non-empty member list, its
  count is the length of that list and its members are names of the input; the category
  names are distinct; the member lists together hold each input name as often as the input
  does; and the copy in \<^verbatim>\<open>DescribeHandler\<close> computes the same output.
\<close>

theorem classification_total:
  "(\<forall>t\<in>set tools. \<exists>!c. c \<in> set (categorizeTools tools) \<and> name t \<in> set (category_tools c))
   \<and> (\<forall>c\<in>set (categorizeTools tools).
         sorted (category_tools c) \<and> category_tools c \<noteq> []
         \<and> category_count c = length (category_tools c)
         \<and> set (category_tools c) \<subseteq> name ` set tools)
   \<and> distinct (map category_name (categorizeTools tools))
   \<and> mset (concat (map category_tools (categorizeTools tools))) = mset (map name tools)
   \<and> DescribeHandler_categorizeTools tools = categorizeTools tools"
  using exactly_one_category category_shape distinct_category_names every_tool_once
    DescribeHandler_categorizeTools_eq
  by blast

theorem classification_total_witness:
  "plain_tool ''send_sms'' \<in> set classified_sample
   \<and> categorizeTools classified_sample =
     [\<lparr>category_name = ''Contact Management'', category_count = 2,
        category_tools = [''create_contact'', ''get_contact_appointments'']\<rparr>,
      \<lparr>category_name = ''Messaging & Communication'', category_count = 2,
        category_tools = [''create_email_template'', ''send_sms'']\<rparr>,
      \<lparr>category_name = ''Other'', category_count = 1,
        category_tools = [''get_timezones'']\<rparr>]
   \<and> (\<exists>!c. c \<in> set (categorizeTools classified_sample)
             \<and> ''send_sms'' \<in> set (category_tools c))"
proof -
  have m: "plain_tool ''send_sms'' \<in> set classified_sample"
    by (simp add: classified_sample_def)
  have n: "name (plain_tool ''send_sms'') = ''send_sms''"
    by (simp add: plain_tool_def)
  from classification_total [of classified_sample]
  have "\<forall>t\<in>set classified_sample.
          \<exists>!c. c \<in> set (categorizeTools classified_sample) \<and> name t \<in> set (category_tools c)"
    by blast
  with m n have "\<exists>!c. c \<in> set (categorizeTools classified_sample)
             \<and> ''send_sms'' \<in> set (category_tools c)"
    by metis
  then show ?thesis using m categorizeTools_sample by blast
qed

subsection \<open>Describing one tool\<close>

lemma find_by_name_None:
  "n \<notin> set (map name tools) \<Longrightarrow> find (\<lambda>t. name t = n) tools = None"
  by (auto simp: find_None_iff)

lemma find_by_name_Some:
  "n \<in> set (map name tools) \<Longrightarrow>
     \<exists>t. find (\<lambda>t. name t = n) tools = Some t \<and> t \<in> set tools \<and> name t = n"
proof -
  assume "n \<in> set (map name tools)"
  then have "find (\<lambda>t. name t = n) tools \<noteq> None" by (auto simp: find_None_iff)
  then obtain t where t: "find (\<lambda>t. name t = n) tools = Some t" by blast
  then have "t \<in> set tools \<and> name t = n"
    by (auto simp: find_Some_iff)
  with t show ?thesis by blast
qed

lemma find_first_index:
  assumes "i < length L" and "\<forall>j<i. name (L ! j) \<noteq> name (L ! i)"
  shows "find (\<lambda>t. name t = name (L ! i)) L = Some (L ! i)"
  unfolding find_Some_iff using assms by blast

lemma single_tool_category:
  "DescribeHandler_categorizeTools [t] \<noteq> []
   \<and> category_name (hd (DescribeHandler_categorizeTools [t])) = bucket_of (toLowerCase (name t))"
proof -
  let ?cs = "categorizeTools [t]"
  have ne: "?cs \<noteq> []" using category_of_tool [of t "[t]"] by auto
  then have h: "hd ?cs \<in> set ?cs" by simp
  from category_shape [OF h] have "set (category_tools (hd ?cs)) \<subseteq> {name t}"
    and "category_tools (hd ?cs) \<noteq> []" by auto
  then have "name t \<in> set (category_tools (hd ?cs))"
    by (cases "category_tools (hd ?cs)") auto
  from category_unique [OF h this] have "category_name (hd ?cs) = bucket_of (toLowerCase (name t))"
    by simp
  with ne show ?thesis by (simp add: DescribeHandler_categorizeTools_eq)
qed

lemma find_first_before:
  "w \<in> set ws \<Longrightarrow> P w \<Longrightarrow> \<forall>w'\<in>set (takeWhile (\<lambda>x. x \<noteq> w) ws). \<not> P w' \<Longrightarrow>
     find P ws = Some w"
  by (induction ws) auto

lemma entityMatch_leftmost:
  assumes "i < length s" and "w \<in> set entity_words"
    and "take (length w) (drop i s) = w"
    and "\<forall>j<i. \<forall>w'\<in>set entity_words. take (length w') (drop j s) \<noteq> w'"
    and "\<forall>w'\<in>set (takeWhile (\<lambda>x. x \<noteq> w) entity_words). take (length w') (drop i s) \<noteq> w'"
  shows "entityMatch s = Some w"
  using assms
proof (induction s arbitrary: i)
  case Nil
  then show ?case by simp
next
  case (Cons c cs)
  show ?case
  proof (cases i)
    case 0
    have "find (\<lambda>w. take (length w) (c # cs) = w) entity_words = Some w"
      using Cons.prems 0 by (intro find_first_before) simp_all
    then show ?thesis by simp
  next
    case (Suc k)
    have "\<forall>w'\<in>set entity_words. take (length w') (c # cs) \<noteq> w'"
      using Cons.prems(4) Suc by (metis drop0 zero_less_Suc)
    then have n: "find (\<lambda>w. take (length w) (c # cs) = w) entity_words = None"
      by (simp add: find_None_iff)
    have "\<forall>j<k. \<forall>w'\<in>set entity_words. take (length w') (drop j cs) \<noteq> w'"
    proof (intro allI impI)
      fix j assume "j < k"
      then have "Suc j < i" using Suc by simp
      with Cons.prems(4) show "\<forall>w'\<in>set entity_words. take (length w') (drop j cs) \<noteq> w'"
        by (metis drop_Suc_Cons)
    qed
    then have "entityMatch cs = Some w"
      using Cons.prems Suc by (intro Cons.IH [of k]) simp_all
    then show ?thesis using n by simp
  qed
qed

lemma entityMatch_none:
  "\<forall>w\<in>set entity_words. \<not> str_includes s w \<Longrightarrow> entityMatch s = None"
proof (induction s)
  case Nil
  then show ?case by simp
next
  case (Cons c cs)
  then have "find (\<lambda>w. take (length w) (c # cs) = w) entity_words = None"
    by (auto simp: find_None_iff)
  moreover have "entityMatch cs = None" using Cons by simp
  ultimately show ?case by simp
qed

lemma findRelatedTools_Some:
  "entityMatch (toLowerCase (name t)) = Some w \<Longrightarrow>
     findRelatedTools t tools =
       take 5 (map name (filter (\<lambda>u. name u \<noteq> name t
                                   \<and> str_includes (toLowerCase (name u)) w) tools))"
  by (simp add: findRelatedTools_def)

lemma findRelatedTools_None:
  "entityMatch (toLowerCase (name t)) = None \<Longrightarrow> findRelatedTools t tools = []"
  by (simp add: findRelatedTools_def)

lemma fold_example_step:
  "fold (example_step props) fs m field =
     (if field \<in> set fs \<and> field \<noteq> ''__proto__'' then
        (case map_of props field of
           None \<Rightarrow> m field
         | Some ty \<Rightarrow> (case example_literal ty field of None \<Rightarrow> m field | Some v \<Rightarrow> Some v))
      else m field)"
proof (induction fs arbitrary: m)
  case Nil
  then show ?case by simp
next
  case (Cons f fs)
  show ?case
    by (simp add: Cons.IH) (auto simp: example_step_def split: option.splits)
qed

lemma generateToolExamples_None:
  "properties (inputSchema t) = None \<Longrightarrow> generateToolExamples t = []"
  by (simp add: generateToolExamples_def)

lemma generateToolExamples_Some:
  "properties (inputSchema t) = Some props \<Longrightarrow>
     \<exists>e. generateToolExamples t = [e] \<and> example_tool e = name t
        \<and> (\<forall>field. example_arguments e field =
              (if field \<in> set (case required (inputSchema t) of None \<Rightarrow> [] | Some r \<Rightarrow> r)
                  \<and> field \<noteq> ''__proto__''
               then (case map_of props field of
                       None \<Rightarrow> None
                     | Some ty \<Rightarrow> example_literal ty field)
               else None))"
  by (auto simp: generateToolExamples_def fold_example_step split: option.splits)

lemma example_literal_cases:
  "example_literal ''string'' field =
     Some (JStr (if str_includes field ''email'' then ''user@example.com''
                 else if str_includes field ''phone'' then ''+1234567890''
                 else if str_includes field ''id'' then ''example_id_123''
                 else ''example_value''))"
  "example_literal ''number'' field =
     Some (JNum (if str_includes field ''amount'' then 100 else 1))"
  "example_literal ''boolean'' field = Some (JBool True)"
  "example_literal ''object'' field = Some (JObj [])"
  "example_literal ''array'' field = Some (JArr [])"
  "ty \<notin> {''string'', ''number'', ''boolean'', ''object'', ''array''} \<Longrightarrow>
     example_literal ty field = None"
  by (simp_all add: example_literal_def)

lemma getToolCategory_table:
  "getToolCategory n = first_match route_priority_order (toLowerCase n)"
  by (simp add: getToolCategory_def route_priority_order_def)

lemma getToolCategory_spec:
  "\<not> str_includes (toLowerCase n) ''event'' \<Longrightarrow>
   \<not> str_includes (toLowerCase n) ''transaction'' \<Longrightarrow>
   \<not> str_includes (toLowerCase n) ''campaign'' \<Longrightarrow>
   getToolCategory n = spec_classify n"
  by (simp add: getToolCategory_def spec_classify_def priority_order_def)

lemma describe_route_found:
  assumes "n \<in> set (map name (getAllTools defs))"
  shows "\<exists>t d. find (\<lambda>t. name t = n) (getAllTools defs) = Some t
           \<and> describe_tool_route defs n = Inr d \<and> tool d = t \<and> name t = n
           \<and> examples d = [\<lparr>example_tool = n, example_arguments = Map.empty\<rparr>]
           \<and> relatedTools d = []
           \<and> category d = first_match route_priority_order (toLowerCase n)
           \<and> (\<not> str_includes (toLowerCase n) ''event''
                \<and> \<not> str_includes (toLowerCase n) ''transaction''
                \<and> \<not> str_includes (toLowerCase n) ''campaign''
                \<longrightarrow> category d = spec_classify n)"
proof -
  from find_by_name_Some [OF assms] obtain t
    where t: "find (\<lambda>t. name t = n) (getAllTools defs) = Some t" "name t = n" by blast
  define d where "d = \<lparr>tool = t,
      examples = [\<lparr>example_tool = name t, example_arguments = Map.empty\<rparr>],
      relatedTools = [], category = getToolCategory n\<rparr>"
  have g: "describe_tool_route defs n = Inr d"
    using t(1) by (simp add: describe_tool_route_def d_def)
  have td: "tool d = t" by (simp add: d_def)
  have ex: "examples d = [\<lparr>example_tool = n, example_arguments = Map.empty\<rparr>]"
    by (simp add: d_def t(2))
  have re: "relatedTools d = []" by (simp add: d_def)
  have c: "category d = first_match route_priority_order (toLowerCase n)"
    by (simp add: d_def getToolCategory_table)
  have c': "\<not> str_includes (toLowerCase n) ''event''
              \<and> \<not> str_includes (toLowerCase n) ''transaction''
              \<and> \<not> str_includes (toLowerCase n) ''campaign''
              \<longrightarrow> category d = spec_classify n"
    using getToolCategory_spec [of n] by (simp add: d_def)
  show ?thesis
    by (intro exI [of _ t] exI [of _ d] conjI) (rule t(1) g td t(2) ex re c c')+
qed

lemma describe_handler_found:
  assumes "n \<in> set (map name tools)"
  shows "\<exists>t d. find (\<lambda>t. name t = n) tools = Some t
           \<and> getToolDescription tools n = Inr d \<and> tool d = t \<and> name t = n
           \<and> category d = spec_classify n
           \<and> ((\<forall>w\<in>set entity_words. \<not> str_includes (toLowerCase n) w) \<longrightarrow>
                relatedTools d = [])
           \<and> (\<forall>i w. i < length (toLowerCase n) \<and> w \<in> set entity_words
                 \<and> take (length w) (drop i (toLowerCase n)) = w
                 \<and> (\<forall>j<i. \<forall>w'\<in>set entity_words.
                        take (length w') (drop j (toLowerCase n)) \<noteq> w')
                 \<and> (\<forall>w'\<in>set (takeWhile (\<lambda>x. x \<noteq> w) entity_words).
                        take (length w') (drop i (toLowerCase n)) \<noteq> w')
                 \<longrightarrow> relatedTools d =
                       take 5 (map name (filter (\<lambda>u. name u \<noteq> n
                                 \<and> str_includes (toLowerCase (name u)) w) tools)))
           \<and> (properties (inputSchema t) = None \<longrightarrow> examples d = [])
           \<and> (\<forall>props. properties (inputSchema t) = Some props \<longrightarrow>
                (\<exists>e. examples d = [e] \<and> example_tool e = n
                   \<and> (\<forall>field. example_arguments e field =
                         (if field \<in> set (case required (inputSchema t) of
                                            None \<Rightarrow> [] | Some r \<Rightarrow> r)
                             \<and> field \<noteq> ''__proto__''
                          then (case map_of props field of
                                  None \<Rightarrow> None
                                | Some ty \<Rightarrow> example_literal ty field)
                          else None))))"
proof -
  from find_by_name_Some [OF assms] obtain t
    where t: "find (\<lambda>t. name t = n) tools = Some t" "name t = n" by blast
  define d where "d = \<lparr>tool = t, examples = generateToolExamples t,
      relatedTools = findRelatedTools t tools,
      category = bucket_of (toLowerCase (name t))\<rparr>"
  have g: "getToolDescription tools n = Inr d"
    using t single_tool_category [of t] by (simp add: getToolDescription_def d_def Let_def)
  have td: "tool d = t" by (simp add: d_def)
  have c: "category d = spec_classify n" by (simp add: d_def bucket_of_spec t)
  have r0: "(\<forall>w\<in>set entity_words. \<not> str_includes (toLowerCase n) w) \<longrightarrow> relatedTools d = []"
    using entityMatch_none [of "toLowerCase n"] findRelatedTools_None [of t tools]
    by (simp add: d_def t(2))
  have r1: "\<forall>i w. i < length (toLowerCase n) \<and> w \<in> set entity_words
                 \<and> take (length w) (drop i (toLowerCase n)) = w
                 \<and> (\<forall>j<i. \<forall>w'\<in>set entity_words.
                        take (length w') (drop j (toLowerCase n)) \<noteq> w')
                 \<and> (\<forall>w'\<in>set (takeWhile (\<lambda>x. x \<noteq> w) entity_words).
                        take (length w') (drop i (toLowerCase n)) \<noteq> w')
                 \<longrightarrow> relatedTools d =
                       take 5 (map name (filter (\<lambda>u. name u \<noteq> n
                                 \<and> str_includes (toLowerCase (name u)) w) tools))"
  proof (intro allI impI)
    fix i w
    assume a: "i < length (toLowerCase n) \<and> w \<in> set entity_words
                 \<and> take (length w) (drop i (toLowerCase n)) = w
                 \<and> (\<forall>j<i. \<forall>w'\<in>set entity_words.
                        take (length w') (drop j (toLowerCase n)) \<noteq> w')
                 \<and> (\<forall>w'\<in>set (takeWhile (\<lambda>x. x \<noteq> w) entity_words).
                        take (length w') (drop i (toLowerCase n)) \<noteq> w')"
    have "entityMatch (toLowerCase n) = Some w"
      using a by (intro entityMatch_leftmost [of i]) blast+
    then have "entityMatch (toLowerCase (name t)) = Some w" by (simp only: t(2))
    from findRelatedTools_Some [OF this, of tools]
    show "relatedTools d =
            take 5 (map name (filter (\<lambda>u. name u \<noteq> n
                      \<and> str_includes (toLowerCase (name u)) w) tools))"
      by (simp add: d_def t(2))
  qed
  have e1: "properties (inputSchema t) = None \<longrightarrow> examples d = []"
    using generateToolExamples_None [of t] by (simp add: d_def)
  have e2: "\<forall>props. properties (inputSchema t) = Some props \<longrightarrow>
                (\<exists>e. examples d = [e] \<and> example_tool e = n
                   \<and> (\<forall>field. example_arguments e field =
                         (if field \<in> set (case required (inputSchema t) of
                                            None \<Rightarrow> [] | Some r \<Rightarrow> r)
                             \<and> field \<noteq> ''__proto__''
                          then (case map_of props field of
                                  None \<Rightarrow> None
                                | Some ty \<Rightarrow> example_literal ty field)
                          else None)))"
    using generateToolExamples_Some [of t] by (simp add: d_def t(2))
  show ?thesis
    by (intro exI [of _ t] exI [of _ d] conjI) (rule t(1) g td t(2) c r0 r1 e1 e2)+
qed

text \<open>
  Claim C5, as the code has it. A name absent from the catalog is answered with a
  not-found failure by \<^verbatim>\<open>getToolDescription\<close> (a thrown \<^verbatim>\<open>Error\<close>) and by the HTTP route
  (status 404). For a name in the catalog both return the first definition carrying the
  name.

  \<^verbatim>\<open>getToolDescription\<close> adds the category the classifier gives the name; the related
  tools; and the examples. The entity word of the name is the word of the fixed vocabulary
  that starts at the leftmost position of the lower-cased name where any of them starts,
  the first in the vocabulary's order among those starting there. The related tools are
  the first five, in catalog order, of the other catalog names whose lower-cased name
  contains that word, and none when no word of the vocabulary occurs. Without
  \<^verbatim>\<open>properties\<close> in the schema there is no example; with them there is one, whose
  arguments hold, for each required field that is declared (the key \<open>__proto__\<close> apart),
  the literal of the declared type: for \<open>string\<close> by the field name (\<open>email\<close>, else
  \<open>phone\<close>, else \<open>id\<close>, else a placeholder), for \<open>number\<close> 100 when the name contains
  \<open>amount\<close> and 1 otherwise, for \<open>boolean\<close> true, for \<open>object\<close> and \<open>array\<close> the empty
  one, and nothing for any other type.

  The HTTP route adds one example without arguments, no related tools, and the first
  matching label of its own table, which is the classifier's label whenever the name has
  none of the cues \<open>event\<close>, \<open>transaction\<close>, \<open>campaign\<close>.
\<close>

theorem describe_one:
  "(n \<notin> set (map name tools) \<longrightarrow>
      getToolDescription tools n = Inl (ErrorObject ''Error'' (not_found_message n)))
   \<and> (n \<notin> set (map name (getAllTools defs)) \<longrightarrow>
      describe_tool_route defs n = Inl (404, not_found_message n))
   \<and> (n \<in> set (map name (getAllTools defs)) \<longrightarrow>
      (\<exists>t d. find (\<lambda>t. name t = n) (getAllTools defs) = Some t
         \<and> describe_tool_route defs n = Inr d \<and> tool d = t \<and> name t = n
         \<and> examples d = [\<lparr>example_tool = n, example_arguments = Map.empty\<rparr>]
         \<and> relatedTools d = []
         \<and> category d = first_match route_priority_order (toLowerCase n)
         \<and> (\<not> str_includes (toLowerCase n) ''event''
              \<and> \<not> str_includes (toLowerCase n) ''transaction''
              \<and> \<not> str_includes (toLowerCase n) ''campaign''
              \<longrightarrow> category d = spec_classify n)))
   \<and> (n \<in> set (map name tools) \<longrightarrow>
      (\<exists>t d. find (\<lambda>t. name t = n) tools = Some t
         \<and> getToolDescription tools n = Inr d \<and> tool d = t \<and> name t = n
         \<and> category d = spec_classify n
         \<and> ((\<forall>w\<in>set entity_words. \<not> str_includes (toLowerCase n) w) \<longrightarrow>
              relatedTools d = [])
         \<and> (\<forall>i w. i < length (toLowerCase n) \<and> w \<in> set entity_words
               \<and> take (length w) (drop i (toLowerCase n)) = w
               \<and> (\<forall>j<i. \<forall>w'\<in>set entity_words.
                      take (length w') (drop j (toLowerCase n)) \<noteq> w')
               \<and> (\<forall>w'\<in>set (takeWhile (\<lambda>x. x \<noteq> w) entity_words).
                      take (length w') (drop i (toLowerCase n)) \<noteq> w')
               \<longrightarrow> relatedTools d =
                     take 5 (map name (filter (\<lambda>u. name u \<noteq> n
                               \<and> str_includes (toLowerCase (name u)) w) tools)))
         \<and> (properties (inputSchema t) = None \<longrightarrow> examples d = [])
         \<and> (\<forall>props. properties (inputSchema t) = Some props \<longrightarrow>
              (\<exists>e. examples d = [e] \<and> example_tool e = n
                 \<and> (\<forall>field. example_arguments e field =
                       (if field \<in> set (case required (inputSchema t) of
                                          None \<Rightarrow> [] | Some r \<Rightarrow> r)
                           \<and> field \<noteq> ''__proto__''
                        then (case map_of props field of
                                None \<Rightarrow> None
                              | Some ty \<Rightarrow> example_literal ty field)
                        else None))))))
   \<and> (\<forall>field. example_literal ''string'' field =
         Some (JStr (if str_includes field ''email'' then ''user@example.com''
                     else if str_includes field ''phone'' then ''+1234567890''
                     else if str_includes field ''id'' then ''example_id_123''
                     else ''example_value''))
       \<and> example_literal ''number'' field =
           Some (JNum (if str_includes field ''amount'' then 100 else 1))
       \<and> example_literal ''boolean'' field = Some (JBool True)
       \<and> example_literal ''object'' field = Some (JObj [])
       \<and> example_literal ''array'' field = Some (JArr [])
       \<and> (\<forall>ty. ty \<notin> {''string'', ''number'', ''boolean'', ''object'', ''array''} \<longrightarrow>
             example_literal ty field = None))"
proof -
  have 1: "getToolDescription tools n = Inl (ErrorObject ''Error'' (not_found_message n))"
    if "n \<notin> set (map name tools)"
    using find_by_name_None [OF that] by (simp add: getToolDescription_def)
  have 2: "describe_tool_route defs n = Inl (404, not_found_message n)"
    if "n \<notin> set (map name (getAllTools defs))"
    using find_by_name_None [OF that] by (simp add: describe_tool_route_def)
  have 5: "example_literal ''string'' field =
         Some (JStr (if str_includes field ''email'' then ''user@example.com''
                     else if str_includes field ''phone'' then ''+1234567890''
                     else if str_includes field ''id'' then ''example_id_123''
                     else ''example_value''))
       \<and> example_literal ''number'' field =
           Some (JNum (if str_includes field ''amount'' then 100 else 1))
       \<and> example_literal ''boolean'' field = Some (JBool True)
       \<and> example_literal ''object'' field = Some (JObj [])
       \<and> example_literal ''array'' field = Some (JArr [])
       \<and> (\<forall>ty. ty \<notin> {''string'', ''number'', ''boolean'', ''object'', ''array''} \<longrightarrow>
             example_literal ty field = None)" for field
    by (intro conjI allI impI) (simp_all add: example_literal_cases)
  show ?thesis
    apply (intro conjI impI)
        apply (erule 1)
       apply (erule 2)
      apply (erule describe_route_found)
     apply (erule describe_handler_found)
    apply (rule allI)
    apply (rule 5)
    done
qed

lemma describe_catalog:
  "getAllTools describe_defs =
     [create_contact_tool, plain_tool ''get_contact'', plain_tool ''send_sms'']"
  by (simp add: getAllTools_def describe_defs_def)

lemma describe_create_contact:
  "getToolDescription (getAllTools describe_defs) ''create_contact'' =
     Inr \<lparr>tool = create_contact_tool, examples = generateToolExamples create_contact_tool,
          relatedTools = [''get_contact''], category = ''Contact Management''\<rparr>"
  unfolding describe_catalog
  by (simp add: getToolDescription_def create_contact_tool_def plain_tool_def
      findRelatedTools_def entity_words_def toLowerCase_def
      DescribeHandler_categorizeTools_def push_def empty_categories_def bucket_of_def)

lemma route_create_contact:
  "describe_tool_route describe_defs ''create_contact'' =
     Inr \<lparr>tool = create_contact_tool,
          examples = [\<lparr>example_tool = ''create_contact'', example_arguments = Map.empty\<rparr>],
          relatedTools = [], category = ''Contact Management''\<rparr>"
  unfolding describe_tool_route_def describe_catalog
  by (simp add: create_contact_tool_def plain_tool_def getToolCategory_def toLowerCase_def)

lemma examples_create_contact:
  "described_examples (getToolDescription (getAllTools describe_defs) ''create_contact'') ''email''
     = [(''create_contact'', Some (JStr ''user@example.com''))]"
  "described_examples (getToolDescription (getAllTools describe_defs) ''create_contact'')
     ''emailOptIn'' = [(''create_contact'', Some (JBool True))]"
  "described_examples (getToolDescription (getAllTools describe_defs) ''create_contact'') ''phone''
     = [(''create_contact'', None)]"
  "described_examples (getToolDescription (getAllTools describe_defs) ''create_contact'')
     ''__proto__'' = [(''create_contact'', None)]"
  unfolding describe_create_contact
  by (simp_all add: described_examples_def generateToolExamples_def create_contact_tool_def
      example_step_def example_literal_def)

theorem describe_one_witness:
  "''create_contact'' \<in> set (map name (getAllTools describe_defs))
   \<and> ''delete_contact_permanently'' \<notin> set (map name (getAllTools describe_defs))
   \<and> getToolDescription (getAllTools describe_defs) ''delete_contact_permanently'' =
       Inl (ErrorObject ''Error'' (not_found_message ''delete_contact_permanently''))
   \<and> describe_tool_route describe_defs ''delete_contact_permanently'' =
       Inl (404, not_found_message ''delete_contact_permanently'')
   \<and> getToolDescription (getAllTools describe_defs) ''create_contact'' =
       Inr \<lparr>tool = create_contact_tool, examples = generateToolExamples create_contact_tool,
            relatedTools = [''get_contact''], category = ''Contact Management''\<rparr>
   \<and> described_examples (getToolDescription (getAllTools describe_defs) ''create_contact'')
       ''email'' = [(''create_contact'', Some (JStr ''user@example.com''))]
   \<and> described_examples (getToolDescription (getAllTools describe_defs) ''create_contact'')
       ''__proto__'' = [(''create_contact'', None)]
   \<and> described_tool (describe_tool_route describe_defs ''create_contact'') =
       Some create_contact_tool"
proof -
  have a: "''delete_contact_permanently'' \<notin> set (map name (getAllTools describe_defs))"
    unfolding describe_catalog by (simp add: create_contact_tool_def plain_tool_def)
  have b: "''create_contact'' \<in> set (map name (getAllTools describe_defs))"
    unfolding describe_catalog by (simp add: create_contact_tool_def plain_tool_def)
  from describe_one [of "''delete_contact_permanently''" "getAllTools describe_defs" describe_defs]
  have c: "getToolDescription (getAllTools describe_defs) ''delete_contact_permanently'' =
       Inl (ErrorObject ''Error'' (not_found_message ''delete_contact_permanently''))"
    and d: "describe_tool_route describe_defs ''delete_contact_permanently'' =
       Inl (404, not_found_message ''delete_contact_permanently'')"
    using a by blast+
  have e: "described_tool (describe_tool_route describe_defs ''create_contact'') =
       Some create_contact_tool"
    unfolding route_create_contact by (simp add: described_tool_def)
  show ?thesis
    using a b c d e describe_create_contact examples_create_contact(1)
      examples_create_contact(4)
    by (intro conjI)
qed

text \<open>
  The claim as it was stated gives every required field whose name contains \<open>email\<close> an
  email-shaped string: \<^verbatim>\<open>getToolDescription\<close> gives the boolean field \<open>emailOptIn\<close> the
  literal \<open>true\<close>, and the HTTP route returns an example without any argument.
\<close>

theorem example_heuristic_counterexample:
  "described_examples (getToolDescription (getAllTools describe_defs) ''create_contact'')
     ''emailOptIn'' = [(''create_contact'', Some (JBool True))]
   \<and> described_examples (describe_tool_route describe_defs ''create_contact'') ''email''
       = [(''create_contact'', None)]"
  using examples_create_contact(2)
  unfolding route_create_contact by (simp add: described_examples_def)

subsection \<open>Listing and describing\<close>

text \<open>
  Claim C9, as the code has it. Describing looks a name up with \<^verbatim>\<open>find\<close>, which returns
  the first definition carrying it. For every index of the listed catalog whose name does
  not occur at an earlier index, describing that name returns the definition at the index,
  and describing the name of the returned definition returns it again.
\<close>

theorem describe_round_trip:
  assumes "i < length (getAllTools defs)"
    and "\<forall>j<i. name (getAllTools defs ! j) \<noteq> name (getAllTools defs ! i)"
  shows "described_tool (describe_tool_route defs (name (getAllTools defs ! i)))
           = Some (getAllTools defs ! i)
         \<and> described_tool (getToolDescription (getAllTools defs) (name (getAllTools defs ! i)))
           = Some (getAllTools defs ! i)
         \<and> (\<exists>d. describe_tool_route defs (name (getAllTools defs ! i)) = Inr d
               \<and> described_tool (describe_tool_route defs (name (tool d)))
                   = Some (getAllTools defs ! i))
         \<and> (\<exists>d. getToolDescription (getAllTools defs) (name (getAllTools defs ! i)) = Inr d
               \<and> described_tool (getToolDescription (getAllTools defs) (name (tool d)))
                   = Some (getAllTools defs ! i))"
proof -
  let ?t = "getAllTools defs ! i"
  have f: "find (\<lambda>t. name t = name ?t) (getAllTools defs) = Some ?t"
    using assms by (rule find_first_index)
  obtain d where d: "describe_tool_route defs (name ?t) = Inr d" "tool d = ?t"
    using f by (simp add: describe_tool_route_def)
  obtain d' where d': "getToolDescription (getAllTools defs) (name ?t) = Inr d'" "tool d' = ?t"
    using f by (simp add: getToolDescription_def Let_def)
  have 1: "described_tool (describe_tool_route defs (name ?t)) = Some ?t"
    using d by (simp add: described_tool_def)
  have 2: "described_tool (getToolDescription (getAllTools defs) (name ?t)) = Some ?t"
    using d' by (simp add: described_tool_def)
  have 3: "\<exists>d. describe_tool_route defs (name ?t) = Inr d
               \<and> described_tool (describe_tool_route defs (name (tool d))) = Some ?t"
    using d 1 by (intro exI [of _ d]) simp
  have 4: "\<exists>d. getToolDescription (getAllTools defs) (name ?t) = Inr d
               \<and> described_tool (getToolDescription (getAllTools defs) (name (tool d))) = Some ?t"
    using d' 2 by (intro exI [of _ d']) simp
  show ?thesis using 1 2 3 4 by (intro conjI)
qed

lemma sample_catalog:
  "getAllTools sample_defs = [plain_tool ''create_contact'', plain_tool ''send_sms'']"
  by (simp add: getAllTools_def sample_defs_def)

theorem describe_round_trip_witness:
  "(1::nat) < length (getAllTools sample_defs)
   \<and> name (getAllTools sample_defs ! 0) \<noteq> name (getAllTools sample_defs ! 1)
   \<and> getAllTools sample_defs ! 1 = plain_tool ''send_sms''
   \<and> described_tool (describe_tool_route sample_defs ''send_sms'') = Some (plain_tool ''send_sms'')
   \<and> described_tool (getToolDescription (getAllTools sample_defs) ''send_sms'')
       = Some (plain_tool ''send_sms'')"
proof -
  have a: "(1::nat) < length (getAllTools sample_defs)"
    unfolding sample_catalog by simp
  have b: "name (getAllTools sample_defs ! 0) \<noteq> name (getAllTools sample_defs ! 1)"
    unfolding sample_catalog by (simp add: plain_tool_def)
  then have c: "\<forall>j<1. name (getAllTools sample_defs ! j) \<noteq> name (getAllTools sample_defs ! 1)"
    by simp
  have e: "getAllTools sample_defs ! 1 = plain_tool ''send_sms''"
    unfolding sample_catalog by simp
  have n: "name (plain_tool ''send_sms'') = ''send_sms''" by (simp add: plain_tool_def)
  from describe_round_trip [OF a c]
  have "described_tool (describe_tool_route sample_defs (name (getAllTools sample_defs ! 1)))
           = Some (getAllTools sample_defs ! 1)"
    and "described_tool (getToolDescription (getAllTools sample_defs)
           (name (getAllTools sample_defs ! 1))) = Some (getAllTools sample_defs ! 1)"
    by blast+
  then show ?thesis using a b e unfolding e n by (intro conjI)
qed

text \<open>
  The claim as it was stated ranges over every index: in a catalog that lists the name
  \<open>x\<close> twice, describing the name of the second entry returns the first.
\<close>

theorem describe_round_trip_counterexample:
  "(1::nat) < length (getAllTools duplicate_defs)
   \<and> described_tool (describe_tool_route duplicate_defs (name (getAllTools duplicate_defs ! 1)))
       \<noteq> Some (getAllTools duplicate_defs ! 1)
   \<and> described_tool (getToolDescription (getAllTools duplicate_defs)
         (name (getAllTools duplicate_defs ! 1)))
       \<noteq> Some (getAllTools duplicate_defs ! 1)"
proof -
  have c: "getAllTools duplicate_defs =
       [\<lparr>name = ''x'', description = Some ''first'', inputSchema = plain_schema\<rparr>,
        \<lparr>name = ''x'', description = Some ''second'', inputSchema = plain_schema\<rparr>]"
    by (simp add: getAllTools_def duplicate_defs_def)
  show ?thesis
    unfolding describe_tool_route_def getToolDescription_def c
    by (simp add: described_tool_def Let_def)
qed

end
